theory Spec2Isabelle
  imports Complex_Main "HOL-Library.Char_ord"
begin

section \<open>JavaScript strings\<close>

text \<open>
  A line is a \<^typ>\<open>string\<close>: a list of code units. HOL characters are 8 bits wide, so the
  development is about lines whose code units lie in 0..255 (ASCII and Latin-1), which
  covers both statement layouts. In that range the white space of \<open>String.prototype.trim\<close>
  and of the regular-expression class \<open>\s\<close> is TAB, LF, VT, FF, CR, SPACE and NBSP.
\<close>

definition isWhiteSpace :: "char \<Rightarrow> bool" where
  "isWhiteSpace c = (c = CHR '' '' \<or> c = CHR 0x09 \<or> c = CHR 0x0A \<or> c = CHR 0x0B \<or>
                     c = CHR 0x0C \<or> c = CHR 0x0D \<or> c = CHR 0xA0)"

text \<open>
  The upper-case letters of ASCII and Latin-1 (\<open>A\<close>..\<open>Z\<close>, U+00C0..U+00DE without the
  multiplication sign) and the lower-case letters that are their images (\<open>a\<close>..\<open>z\<close>,
  U+00E0..U+00FE without the division sign). The lower-case form of an upper-case letter
  is 32 code units higher, that is, it has bit 5 set.
\<close>

definition in_range :: "char \<Rightarrow> char \<Rightarrow> char \<Rightarrow> bool" where
  "in_range lo hi c = (lo \<le> c \<and> c \<le> hi)"

definition isDigit :: "char \<Rightarrow> bool" where
  "isDigit c = in_range CHR ''0'' CHR ''9'' c"

definition isUpper :: "char \<Rightarrow> bool" where
  "isUpper c = (in_range CHR ''A'' CHR ''Z'' c \<or> (in_range (CHR 0xC0) (CHR 0xDE) c \<and> c \<noteq> CHR 0xD7))"

definition isLower :: "char \<Rightarrow> bool" where
  "isLower c = (in_range CHR ''a'' CHR ''z'' c \<or> (in_range (CHR 0xE0) (CHR 0xFE) c \<and> c \<noteq> CHR 0xF7))"

fun toLowerChar :: "char \<Rightarrow> char" where
  "toLowerChar (Char b0 b1 b2 b3 b4 b5 b6 b7) =
     (if isUpper (Char b0 b1 b2 b3 b4 b5 b6 b7) then Char b0 b1 b2 b3 b4 True b6 b7
      else Char b0 b1 b2 b3 b4 b5 b6 b7)"

fun toUpperChar :: "char \<Rightarrow> char" where
  "toUpperChar (Char b0 b1 b2 b3 b4 b5 b6 b7) =
     (if isLower (Char b0 b1 b2 b3 b4 b5 b6 b7) then Char b0 b1 b2 b3 b4 False b6 b7
      else Char b0 b1 b2 b3 b4 b5 b6 b7)"

text \<open>\<open>s.trim()\<close>, \<open>s.toLowerCase()\<close>, \<open>s.includes(t)\<close> and \<open>s.split('\n')\<close>.\<close>

definition js_trim :: "string \<Rightarrow> string" where
  "js_trim s = rev (dropWhile isWhiteSpace (rev (dropWhile isWhiteSpace s)))"

definition toLowerCase :: "string \<Rightarrow> string" where
  "toLowerCase s = map toLowerChar s"

fun startsWith :: "string \<Rightarrow> string \<Rightarrow> bool" where
  "startsWith s [] = True"
| "startsWith [] (p # ps) = False"
| "startsWith (c # s) (p # ps) = (c = p \<and> startsWith s ps)"

fun js_includes :: "string \<Rightarrow> string \<Rightarrow> bool" where
  "js_includes [] t = (t = [])"
| "js_includes (c # s) t = (startsWith (c # s) t \<or> js_includes s t)"

text \<open>
  \<open>s.split('\n')\<close>: the pieces between line feeds, in order; the empty string splits into
  one empty piece. The first argument accumulates the current piece.
\<close>

fun split_from :: "string \<Rightarrow> string \<Rightarrow> string list" where
  "split_from cur [] = [cur]"
| "split_from cur (c # s) = (if c = CHR 0x0A then cur # split_from [] s else split_from (cur @ [c]) s)"

definition js_split_nl :: "string \<Rightarrow> string list" where
  "js_split_nl s = split_from [] s"


section \<open>Regular expressions\<close>

text \<open>
  The extraction rules are regular-expression literals. They are embedded as syntax trees
  and run by a backtracking matcher with the priorities of ECMAScript: alternatives left
  to right, a greedy star tries one more iteration before it stops, a lazy star stops
  before it tries one more, and an iteration of a star that consumes nothing is refused.
  Every pattern of the parser has at most one capture group, outside any repetition.
\<close>

datatype cls = CDigit | CSpace | CRange char char | CChar char

datatype rx =
    Eps
  | One "cls list"
  | NotOne "cls list"
  | Seq rx rx
  | Alt rx rx
  | Star rx
  | LazyStar rx
  | Group rx
  | Eol
  | Ahead rx
  | WordB

text \<open>
  The matcher state: the code unit before the current position (for \<open>\b\<close>), the input
  from the current position on, and group 1 as the pair of the input where the group
  opened and the input where it closed.
\<close>

datatype mstate = MState (prev: "char option") (rest: string) (cap: "(string \<times> string) option")

fun in_cls :: "cls \<Rightarrow> char \<Rightarrow> bool" where
  "in_cls CDigit c = isDigit c"
| "in_cls CSpace c = isWhiteSpace c"
| "in_cls (CRange lo hi) c = in_range lo hi c"
| "in_cls (CChar x) c = (c = x)"

text \<open>
  With the flag \<open>i\<close> a character belongs to a class when some member of the class has the same
  canonical (upper-case) form; the members with the canonical form of \<open>c\<close> are \<open>c\<close> and its
  two case variants.
\<close>

definition in_set :: "bool \<Rightarrow> cls list \<Rightarrow> char \<Rightarrow> bool" where
  "in_set ic cs c =
     (if ic then list_ex (\<lambda>a. list_ex (\<lambda>x. in_cls x a) cs) [c, toUpperChar c, toLowerChar c]
      else list_ex (\<lambda>x. in_cls x c) cs)"

definition isWordChar :: "char \<Rightarrow> bool" where
  "isWordChar c = (isDigit c \<or> in_range CHR ''a'' CHR ''z'' c \<or> in_range CHR ''A'' CHR ''Z'' c \<or> c = CHR ''_'')"

definition at_word_boundary :: "mstate \<Rightarrow> bool" where
  "at_word_boundary st =
     ((case prev st of None \<Rightarrow> False | Some c \<Rightarrow> isWordChar c) \<noteq>
      (case rest st of [] \<Rightarrow> False | c # s \<Rightarrow> isWordChar c))"

function rx_match :: "bool \<Rightarrow> rx \<Rightarrow> (mstate \<Rightarrow> mstate option) \<Rightarrow> mstate \<Rightarrow> mstate option" where
  "rx_match ic Eps k st = k st"
| "rx_match ic (One cs) k st =
     (case rest st of [] \<Rightarrow> None
      | c # s \<Rightarrow> if in_set ic cs c then k (MState (Some c) s (cap st)) else None)"
| "rx_match ic (NotOne cs) k st =
     (case rest st of [] \<Rightarrow> None
      | c # s \<Rightarrow> if in_set ic cs c then None else k (MState (Some c) s (cap st)))"
| "rx_match ic (Seq r1 r2) k st = rx_match ic r1 (\<lambda>st'. rx_match ic r2 k st') st"
| "rx_match ic (Alt r1 r2) k st =
     (case rx_match ic r1 k st of Some x \<Rightarrow> Some x | None \<Rightarrow> rx_match ic r2 k st)"
| "rx_match ic (Star r) k st =
     (case rx_match ic r
             (\<lambda>st'. if length (rest st') < length (rest st) then rx_match ic (Star r) k st' else None) st of
        Some x \<Rightarrow> Some x
      | None \<Rightarrow> k st)"
| "rx_match ic (LazyStar r) k st =
     (case k st of
        Some x \<Rightarrow> Some x
      | None \<Rightarrow> rx_match ic r
             (\<lambda>st'. if length (rest st') < length (rest st) then rx_match ic (LazyStar r) k st' else None) st)"
| "rx_match ic (Group r) k st =
     rx_match ic r (\<lambda>st'. k (MState (prev st') (rest st') (Some (rest st, rest st')))) st"
| "rx_match ic Eol k st = (if rest st = [] then k st else None)"
| "rx_match ic (Ahead r) k st = (case rx_match ic r Some st of None \<Rightarrow> None | Some x \<Rightarrow> k st)"
| "rx_match ic WordB k st = (if at_word_boundary st then k st else None)"
  by pat_completeness auto
termination
  by (relation "measures [\<lambda>(ic, r, k, st). size r, \<lambda>(ic, r, k, st). length (rest st)]") auto

text \<open>Derived forms: \<open>r+\<close>, \<open>r+?\<close>, \<open>r?\<close>, \<open>r{n}\<close>, \<open>r{n,m}\<close>, a literal character, a literal
  string, a sequence, \<open>\d\<close>, \<open>\s\<close> and \<open>\t\<close>.\<close>

definition Plus :: "rx \<Rightarrow> rx" where
  "Plus r = Seq r (Star r)"

definition LazyPlus :: "rx \<Rightarrow> rx" where
  "LazyPlus r = Seq r (LazyStar r)"

definition Opt :: "rx \<Rightarrow> rx" where
  "Opt r = Alt r Eps"

fun Times :: "nat \<Rightarrow> rx \<Rightarrow> rx" where
  "Times 0 r = Eps"
| "Times (Suc n) r = Seq r (Times n r)"

fun UpTo :: "nat \<Rightarrow> rx \<Rightarrow> rx" where
  "UpTo 0 r = Eps"
| "UpTo (Suc n) r = Opt (Seq r (UpTo n r))"

definition Between :: "nat \<Rightarrow> nat \<Rightarrow> rx \<Rightarrow> rx" where
  "Between n m r = Seq (Times n r) (UpTo (m - n) r)"

definition Chr :: "char \<Rightarrow> rx" where
  "Chr c = One [CChar c]"

fun Lit :: "string \<Rightarrow> rx" where
  "Lit [] = Eps"
| "Lit (c # s) = Seq (Chr c) (Lit s)"

fun Seqs :: "rx list \<Rightarrow> rx" where
  "Seqs [] = Eps"
| "Seqs (r # rs) = Seq r (Seqs rs)"

definition digit :: rx where
  "digit = One [CDigit]"

definition ws :: rx where
  "ws = One [CSpace]"

definition tab :: rx where
  "tab = Chr (CHR 0x09)"

text \<open>
  \<open>s.match(re)\<close> for a pattern without the flag \<open>g\<close>: the first start position, from the
  left, at which the pattern matches. The result is the final matcher state: \<open>cap\<close> is
  group 1 and \<open>rest\<close> is the input after the match.
\<close>

fun rx_search :: "bool \<Rightarrow> rx \<Rightarrow> char option \<Rightarrow> string \<Rightarrow> mstate option" where
  "rx_search ic r p [] = rx_match ic r Some (MState p ([]) None)"
| "rx_search ic r p (c # s) =
     (case rx_match ic r Some (MState p (c # s) None) of
        Some st \<Rightarrow> Some st
      | None \<Rightarrow> rx_search ic r (Some c) s)"

definition group1 :: "mstate \<Rightarrow> string" where
  "group1 st = (case cap st of None \<Rightarrow> [] | Some (a, b) \<Rightarrow> take (length a - length b) a)"

definition match1 :: "bool \<Rightarrow> rx \<Rightarrow> string \<Rightarrow> string option" where
  "match1 ic r s = map_option group1 (rx_search ic r None s)"

text \<open>
  \<open>m[1]\<close> of a successful match \<open>m\<close> is \<open>undefined\<close> when group 1 took no part in the match.
  \<open>undefined_group\<close> says that the pattern matches and leaves group 1 undefined.
\<close>

definition undefined_group :: "bool \<Rightarrow> rx \<Rightarrow> string \<Rightarrow> bool" where
  "undefined_group ic r s = (case rx_search ic r None s of Some st \<Rightarrow> cap st = None | None \<Rightarrow> False)"

text \<open>
  A test on the syntax of a pattern: group 1 stands in the main sequence of the pattern,
  under no alternative and no repetition.
\<close>

fun always_captures :: "rx \<Rightarrow> bool" where
  "always_captures (Group r) = True"
| "always_captures (Seq r1 r2) = (always_captures r1 \<or> always_captures r2)"
| "always_captures r = False"

text \<open>
  \<open>[...s.matchAll(re)].map(m => m[1])\<close> for a pattern with the flag \<open>g\<close>: the matches from
  left to right, each search starting where the previous match ended (one code unit
  further after an empty match).
\<close>

function matchAll_from :: "bool \<Rightarrow> rx \<Rightarrow> char option \<Rightarrow> string \<Rightarrow> string list" where
  "matchAll_from ic r p s =
     (case rx_match ic r Some (MState p (s) None) of
        Some st \<Rightarrow>
          (if length (rest st) < length s then group1 st # matchAll_from ic r (prev st) (rest st)
           else (case s of [] \<Rightarrow> [group1 st] | c # s' \<Rightarrow> group1 st # matchAll_from ic r (Some c) s'))
      | None \<Rightarrow> (case s of [] \<Rightarrow> [] | c # s' \<Rightarrow> matchAll_from ic r (Some c) s'))"
  by pat_completeness auto
termination
  by (relation "measure (\<lambda>(ic, r, p, s). length s)") auto

definition matchAll1 :: "bool \<Rightarrow> rx \<Rightarrow> string \<Rightarrow> string list" where
  "matchAll1 ic r s = matchAll_from ic r None s"

text \<open>\<open>s.replace(re, t)\<close> for a pattern with the flag \<open>g\<close> and a replacement without \<open>$\<close>.\<close>

function replaceAll_from :: "bool \<Rightarrow> rx \<Rightarrow> string \<Rightarrow> char option \<Rightarrow> string \<Rightarrow> string" where
  "replaceAll_from ic r t p s =
     (case rx_match ic r Some (MState p (s) None) of
        Some st \<Rightarrow>
          (if length (rest st) < length s then t @ replaceAll_from ic r t (prev st) (rest st)
           else (case s of [] \<Rightarrow> t | c # s' \<Rightarrow> t @ c # replaceAll_from ic r t (Some c) s'))
      | None \<Rightarrow> (case s of [] \<Rightarrow> [] | c # s' \<Rightarrow> c # replaceAll_from ic r t (Some c) s'))"
  by pat_completeness auto
termination
  by (relation "measure (\<lambda>(ic, r, t, p, s). length s)") auto

definition replaceAll :: "bool \<Rightarrow> rx \<Rightarrow> string \<Rightarrow> string \<Rightarrow> string" where
  "replaceAll ic r t s = replaceAll_from ic r t None s"

text \<open>
  Auxiliary combinators, used to state how the matcher runs on a concrete input: the
  first result of two alternatives, a result that is kept only after a successful
  lookahead, the continuation that closes group 1, and the choices taken after a class
  test.
\<close>

definition orelse :: "'a option \<Rightarrow> 'a option \<Rightarrow> 'a option" where
  "orelse a b = (case a of Some x \<Rightarrow> Some x | None \<Rightarrow> b)"

definition and_then :: "'a option \<Rightarrow> 'b option \<Rightarrow> 'b option" where
  "and_then a b = (case a of Some x \<Rightarrow> b | None \<Rightarrow> None)"

definition close_group :: "(mstate \<Rightarrow> mstate option) \<Rightarrow> string \<Rightarrow> mstate \<Rightarrow> mstate option" where
  "close_group k a st = k (MState (prev st) (rest st) (Some (a, rest st)))"

definition one_step :: "bool \<Rightarrow> (mstate \<Rightarrow> mstate option) \<Rightarrow> mstate \<Rightarrow> mstate option" where
  "one_step b k st = (if b then k st else None)"

definition star_step ::
  "bool \<Rightarrow> (mstate \<Rightarrow> mstate option) \<Rightarrow> (mstate \<Rightarrow> mstate option) \<Rightarrow> mstate \<Rightarrow> mstate \<Rightarrow> mstate option" where
  "star_step b f k st1 st0 = (if b then orelse (f st1) (k st0) else k st0)"

definition lazy_step ::
  "bool \<Rightarrow> (mstate \<Rightarrow> mstate option) \<Rightarrow> (mstate \<Rightarrow> mstate option) \<Rightarrow> mstate \<Rightarrow> mstate \<Rightarrow> mstate option" where
  "lazy_step b f k st1 st0 = (if b then orelse (k st0) (f st1) else k st0)"

definition search_step :: "mstate option \<Rightarrow> (string \<Rightarrow> mstate option) \<Rightarrow> string \<Rightarrow> mstate option" where
  "search_step a f s = (case a of Some st \<Rightarrow> Some st | None \<Rightarrow> f s)"

definition starts_step :: "bool \<Rightarrow> string \<Rightarrow> string \<Rightarrow> bool" where
  "starts_step b s ps = (if b then startsWith s ps else False)"

definition matchAll_step :: "bool \<Rightarrow> rx \<Rightarrow> string \<Rightarrow> mstate option \<Rightarrow> string list" where
  "matchAll_step ic r s res =
     (case res of
        Some st \<Rightarrow>
          (if length (rest st) < length s then group1 st # matchAll_from ic r (prev st) (rest st)
           else (case s of [] \<Rightarrow> [group1 st] | c # s' \<Rightarrow> group1 st # matchAll_from ic r (Some c) s'))
      | None \<Rightarrow> (case s of [] \<Rightarrow> [] | c # s' \<Rightarrow> matchAll_from ic r (Some c) s'))"

definition replaceAll_step :: "bool \<Rightarrow> rx \<Rightarrow> string \<Rightarrow> string \<Rightarrow> mstate option \<Rightarrow> string" where
  "replaceAll_step ic r t s res =
     (case res of
        Some st \<Rightarrow>
          (if length (rest st) < length s then t @ replaceAll_from ic r t (prev st) (rest st)
           else (case s of [] \<Rightarrow> t | c # s' \<Rightarrow> t @ c # replaceAll_from ic r t (Some c) s'))
      | None \<Rightarrow> (case s of [] \<Rightarrow> [] | c # s' \<Rightarrow> c # replaceAll_from ic r t (Some c) s'))"

section \<open>The extraction rules\<close>

text \<open>
  The repository holds two versions of the parser with the same extraction rules over
  two record layouts: the 21-column export, which the layout component and the
  deduplicating database service are written against, and the QuickBooks export of
  \<open>src/utils/transactionParser.ts\<close>. The rules are stated once; the definitions of the
  21-column version carry the source's names, those of the QuickBooks version the suffix
  \<open>_qb\<close>.
\<close>

text \<open>
  A thrown or returned error value: its \<open>message\<close> and whether it is an instance of \<open>Error\<close>.
  \<open>error instanceof Error ? error.message : 'Unknown error'\<close>.
\<close>

record js_error =
  message :: string
  instanceofError :: bool

definition catch_message :: "js_error \<Rightarrow> string" where
  "catch_message e = (if instanceofError e then message e else ''Unknown error'')"

text \<open>
  The \<open>TypeError\<close> that a method call on \<open>undefined\<close> throws (the message is the one of V8).
\<close>

definition type_error :: "string \<Rightarrow> js_error" where
  "type_error method =
     \<lparr>message = ''Cannot read properties of undefined (reading '' @ [CHR 0x27] @ method @ [CHR 0x27] @ '')'',
      instanceofError = True\<rparr>"

text \<open>\<open>a || b\<close> on strings: the empty string is falsy.\<close>

definition js_or :: "string \<Rightarrow> string \<Rightarrow> string" where
  "js_or a b = (if a \<noteq> [] then a else b)"

datatype bank = NMB | CRDB

record 't ParseResult =
  successful :: "'t list"
  failed :: "'t list"
  totalLines :: nat
  successCount :: nat
  failCount :: nat
  bankType :: bank

text \<open>The patterns of \<open>parseTransactionLine\<close>, in the order of the source.\<close>

definition number :: rx where
  \<comment> \<open>\<open>\d+(?:,\d{3})*(?:\.\d{2})?\<close>\<close>
  "number = Seqs [Plus digit, Star (Seq (Chr CHR '','') (Times 3 digit)), Opt (Seq (Chr CHR ''.'') (Times 2 digit))]"

definition datePattern :: rx where
  \<comment> \<open>\<open>/(\d{1,2}\s+[A-Za-z]{3}\s+\d{4})/\<close>\<close>
  "datePattern = Group (Seqs [Between 1 2 digit, Plus ws,
      Times 3 (One [CRange CHR ''A'' CHR ''Z'', CRange CHR ''a'' CHR ''z'']), Plus ws, Times 4 digit])"

definition descriptionPattern :: rx where
  \<comment> \<open>\<open>/Description\s+(\d+)/i\<close>\<close>
  "descriptionPattern = Seqs [Lit ''Description'', Plus ws, Group (Plus digit)]"

definition userIdPattern :: rx where
  \<comment> \<open>\<open>/@(\d+)@/\<close>\<close>
  "userIdPattern = Seqs [Chr CHR ''@'', Group (Plus digit), Chr CHR ''@'']"

definition userNamePattern :: rx where
  \<comment> \<open>\<open>/=>\s*([A-Z\s]+?)(?:\t|$)/i\<close>\<close>
  "userNamePattern = Seqs [Lit ''=>'', Star ws, Group (LazyPlus (One [CRange CHR ''A'' CHR ''Z'', CSpace])), Alt tab Eol]"

definition amountPattern :: rx where
  \<comment> \<open>\<open>/\t(\d+(?:,\d{3})*(?:\.\d{2})?)\t+(?:TZS|$)/i\<close>\<close>
  "amountPattern = Seqs [tab, Group number, Plus tab, Alt (Lit ''TZS'') Eol]"

definition altAmountPattern :: rx where
  \<comment> \<open>\<open>/\t(\d+(?:,\d{3})*(?:\.\d{2})?)\s*\t*\s*TZS/i\<close>\<close>
  "altAmountPattern = Seqs [tab, Group number, Star ws, Star tab, Star ws, Lit ''TZS'']"

definition depositPattern :: rx where
  \<comment> \<open>\<open>/(\d+(?:,\d{3})*(?:\.\d{2})?)\s*(?:\t|TZS)/\<close>\<close>
  "depositPattern = Seqs [Group number, Star ws, Alt tab (Lit ''TZS'')]"

definition productNamePattern :: rx where
  \<comment> \<open>\<open>/\d{3}\s*-\s*([^-]+)\s*-/\<close>\<close>
  "productNamePattern = Seqs [Times 3 digit, Star ws, Chr CHR ''-'', Star ws,
      Group (Plus (NotOne [CChar CHR ''-''])), Star ws, Chr CHR ''-'']"

text \<open>
  The rules of the NMB extractor. \<open>match[1]\<close> of a successful match is the capture, a
  failed match gives the empty string. The date has its runs of white space collapsed
  (\<open>replace(/\s+/g, ' ').trim()\<close>); the three amount patterns are tried in order, a later
  one only while the amount is still empty (\<open>if (!amount)\<close>); the user id falls back to
  the name after \<open>=>\<close>.
\<close>

definition nmb_transactionDate :: "string \<Rightarrow> string" where
  "nmb_transactionDate trimmedLine =
     (case match1 False datePattern trimmedLine of
        Some g \<Rightarrow> js_trim (replaceAll False (Plus ws) '' '' g)
      | None \<Rightarrow> [])"

definition nmb_refId :: "string \<Rightarrow> string" where
  "nmb_refId trimmedLine = (case match1 True descriptionPattern trimmedLine of Some g \<Rightarrow> g | None \<Rightarrow> [])"

definition nmb_userName :: "string \<Rightarrow> string" where
  "nmb_userName trimmedLine = (case match1 True userNamePattern trimmedLine of Some g \<Rightarrow> js_trim g | None \<Rightarrow> [])"

definition nmb_userId :: "string \<Rightarrow> string" where
  "nmb_userId trimmedLine =
     (let userId = (case match1 False userIdPattern trimmedLine of Some g \<Rightarrow> g | None \<Rightarrow> []);
          userName = nmb_userName trimmedLine
      in if userId = [] \<and> userName \<noteq> [] then userName else userId)"

definition nmb_amount :: "string \<Rightarrow> string" where
  "nmb_amount trimmedLine =
     (let amount = (case match1 True amountPattern trimmedLine of Some g \<Rightarrow> g | None \<Rightarrow> []);
          amount = (if amount = [] then
                      (case match1 True altAmountPattern trimmedLine of Some g \<Rightarrow> g | None \<Rightarrow> [])
                    else amount);
          amount = (if amount = [] then
                      (case match1 False depositPattern trimmedLine of Some g \<Rightarrow> g | None \<Rightarrow> amount)
                    else amount)
      in amount)"

definition nmb_productName :: "string \<Rightarrow> string \<Rightarrow> string" where
  "nmb_productName fallback trimmedLine =
     (case match1 False productNamePattern trimmedLine of Some g \<Rightarrow> js_trim g | None \<Rightarrow> fallback)"

text \<open>The patterns of \<open>parseCRDBTransactionLine\<close>.\<close>

definition datePattern_crdb :: rx where
  \<comment> \<open>\<open>/(\d{2}\.\d{2}\.\d{4})/\<close>\<close>
  "datePattern_crdb = Group (Seqs [Times 2 digit, Chr CHR ''.'', Times 2 digit, Chr CHR ''.'', Times 4 digit])"

definition amountsRegex :: rx where
  \<comment> \<open>\<open>/([\d,]+\.\d{2})/g\<close>\<close>
  "amountsRegex = Group (Seqs [Plus (One [CDigit, CChar CHR '','']), Chr CHR ''.'', Times 2 digit])"

definition accountPattern :: rx where
  \<comment> \<open>\<open>/:(\d{10,14})\s+/\<close>\<close>
  "accountPattern = Seqs [Chr CHR '':'', Group (Between 10 14 digit), Plus ws]"

definition refPattern :: rx where
  \<comment> \<open>\<open>/REF:([a-zA-Z0-9]+)/\<close>\<close>
  "refPattern = Seqs [Lit ''REF:'', Group (Plus (One [CRange CHR ''a'' CHR ''z'', CRange CHR ''A'' CHR ''Z'', CDigit]))]"

definition namePattern :: rx where
  \<comment> \<open>\<open>/:([a-zA-Z\s]+):(?=\d{10,14})/\<close>\<close>
  "namePattern = Seqs [Chr CHR '':'', Group (Plus (One [CRange CHR ''a'' CHR ''z'', CRange CHR ''A'' CHR ''Z'', CSpace])),
      Chr CHR '':'', Ahead (Between 10 14 digit)]"

text \<open>
  The rules of the CRDB extractor. The date has its dots replaced by the separator of the
  version (\<open>-\<close> in the 21-column version, \<open>/\<close> in the QuickBooks version). The amount is
  chosen among all the matches of \<open>amountsRegex\<close>, in the order of the line.
\<close>

definition crdb_transactionDate :: "string \<Rightarrow> string \<Rightarrow> string" where
  "crdb_transactionDate sep trimmedLine =
     (case match1 False datePattern_crdb trimmedLine of
        Some g \<Rightarrow> replaceAll False (Chr CHR ''.'') sep g
      | None \<Rightarrow> [])"

definition selectAmount :: "string list \<Rightarrow> string" where
  "selectAmount allAmounts =
     (if length allAmounts \<ge> 2 then
        (if length allAmounts \<ge> 3 then allAmounts ! (length allAmounts - 2)
         else allAmounts ! (length allAmounts - 1))
      else if length allAmounts = 1 then allAmounts ! 0
      else [])"

definition crdb_amount :: "string \<Rightarrow> string" where
  "crdb_amount trimmedLine = (let allAmounts = matchAll1 False amountsRegex trimmedLine in selectAmount allAmounts)"

definition crdb_accountNumber :: "string \<Rightarrow> string" where
  "crdb_accountNumber trimmedLine = (case match1 False accountPattern trimmedLine of Some g \<Rightarrow> g | None \<Rightarrow> [])"

definition crdb_refId :: "string \<Rightarrow> string" where
  "crdb_refId trimmedLine = (case match1 False refPattern trimmedLine of Some g \<Rightarrow> g | None \<Rightarrow> [])"

definition crdb_clientName :: "string \<Rightarrow> string" where
  "crdb_clientName trimmedLine = (case match1 False namePattern trimmedLine of Some g \<Rightarrow> js_trim g | None \<Rightarrow> [])"

section \<open>The QuickBooks version of the parser\<close>

record ParsedTransaction_qb =
  paymentDate :: string
  customer :: string
  paymentMethod :: string
  depositToAccountName :: string
  invoiceNo :: string
  journalNo :: string
  amount :: string
  referenceMemo :: string
  countryCode :: string
  exchangeRate :: string
  rawLine :: string
  isValid :: bool
  errorMessage :: "string option"

definition createEmptyTransaction_qb :: "string \<Rightarrow> string option \<Rightarrow> ParsedTransaction_qb" where
  "createEmptyTransaction_qb line msg =
     \<lparr>paymentDate = [], customer = [], paymentMethod = [], depositToAccountName = [], invoiceNo = [],
      journalNo = [], amount = [], referenceMemo = [], countryCode = [], exchangeRate = [],
      rawLine = line, isValid = False, errorMessage = msg\<rparr>"

text \<open>
  The \<open>try\<close> block of \<open>parseTransactionLine\<close>. The operations of the block are methods of
  strings, of patterns and of arrays, which do not throw on a string, and three method
  calls on \<open>match[1]\<close>: \<open>dateMatch[1].replace\<close>, \<open>userNameMatch[1].trim\<close> and
  \<open>productNameMatch[1].trim\<close>. Such a call throws a \<open>TypeError\<close> when the match has left
  group 1 undefined. The block tests the three calls in the order in which the source
  reaches them; when none throws, the fields are those of the rules above.
\<close>

definition parseTransactionLine_try_qb :: "string \<Rightarrow> js_error + ParsedTransaction_qb" where
  "parseTransactionLine_try_qb trimmedLine =
     (if undefined_group False datePattern trimmedLine then Inl (type_error ''replace'')
      else if undefined_group True userNamePattern trimmedLine then Inl (type_error ''trim'')
      else if undefined_group False productNamePattern trimmedLine then Inl (type_error ''trim'')
      else
      let paymentDate = nmb_transactionDate trimmedLine;
          invoiceNo = nmb_refId trimmedLine;
          userId = nmb_userId trimmedLine;
          userName = nmb_userName trimmedLine;
          amount = nmb_amount trimmedLine;
          lower = toLowerCase trimmedLine;
          paymentMethod =
            (if js_includes lower ''transfer'' then ''Transfer''
             else if js_includes lower ''mobile'' then ''Mobile Banking''
             else if js_includes lower ''atm'' then ''ATM''
             else if js_includes lower ''cheque'' then ''Cheque''
             else ''Cash'');
          depositToAccountName = nmb_productName ''NMB Collection AC'' trimmedLine;
          customer = js_or userName [];
          referenceMemo = (if userId \<noteq> [] then userId else invoiceNo);
          isValid = (invoiceNo \<noteq> [] \<or> amount \<noteq> [] \<or> paymentDate \<noteq> [])
      in Inr \<lparr>paymentDate = paymentDate, customer = customer, paymentMethod = paymentMethod,
              depositToAccountName = depositToAccountName, invoiceNo = invoiceNo, journalNo = [],
              amount = amount, referenceMemo = referenceMemo, countryCode = [], exchangeRate = [],
              rawLine = trimmedLine, isValid = isValid,
              errorMessage = (if isValid then None else Some ''Could not extract required fields'')\<rparr>)"

text \<open>
  \<open>parseTransactionLine\<close>: the guard on the empty line, the \<open>try\<close> block and the \<open>catch\<close>
  clause. The block is a parameter of the skeleton, so that what the function does when a
  rule faults can be stated; the function itself runs the rules above.
\<close>

definition parseTransactionLine_guarded_qb ::
  "(string \<Rightarrow> js_error + ParsedTransaction_qb) \<Rightarrow> string \<Rightarrow> ParsedTransaction_qb" where
  "parseTransactionLine_guarded_qb rules line =
     (let trimmedLine = js_trim line in
      if trimmedLine = [] then createEmptyTransaction_qb line (Some ''Empty line'')
      else
        (case rules trimmedLine of
           Inr parsed \<Rightarrow> parsed
         | Inl e \<Rightarrow> createEmptyTransaction_qb trimmedLine (Some (''Parse error: '' @ catch_message e))))"

definition parseTransactionLine_qb :: "string \<Rightarrow> ParsedTransaction_qb" where
  "parseTransactionLine_qb line = parseTransactionLine_guarded_qb parseTransactionLine_try_qb line"

text \<open>
  The \<open>try\<close> block of \<open>parseCRDBTransactionLine\<close>: the method calls on \<open>match[1]\<close> are
  \<open>dateMatch[1].replace\<close> and \<open>nameMatch[1].trim\<close>.
\<close>

definition parseCRDBTransactionLine_try_qb :: "string \<Rightarrow> js_error + ParsedTransaction_qb" where
  "parseCRDBTransactionLine_try_qb trimmedLine =
     (if undefined_group False datePattern_crdb trimmedLine then Inl (type_error ''replace'')
      else if undefined_group False namePattern trimmedLine then Inl (type_error ''trim'')
      else
      let paymentDate = crdb_transactionDate ''/'' trimmedLine;
          amount = crdb_amount trimmedLine;
          accountNumber = crdb_accountNumber trimmedLine;
          invoiceNo = crdb_refId trimmedLine;
          customer = crdb_clientName trimmedLine;
          isValid = (amount \<noteq> [] \<or> paymentDate \<noteq> [])
      in Inr \<lparr>paymentDate = paymentDate, customer = customer, paymentMethod = ''Transfer'',
              depositToAccountName = ''CRDB Collection AC'', invoiceNo = invoiceNo, journalNo = [],
              amount = amount, referenceMemo = js_or accountNumber invoiceNo, countryCode = [],
              exchangeRate = [], rawLine = trimmedLine, isValid = isValid,
              errorMessage = (if isValid then None
                              else Some ''Could not extract required fields from CRDB line'')\<rparr>)"

text \<open>In the CRDB function the \<open>catch\<close> clause keeps the untrimmed line.\<close>

definition parseCRDBTransactionLine_guarded_qb ::
  "(string \<Rightarrow> js_error + ParsedTransaction_qb) \<Rightarrow> string \<Rightarrow> ParsedTransaction_qb" where
  "parseCRDBTransactionLine_guarded_qb rules line =
     (let trimmedLine = js_trim line in
      if trimmedLine = [] then createEmptyTransaction_qb line (Some ''Empty line'')
      else
        (case rules trimmedLine of
           Inr parsed \<Rightarrow> parsed
         | Inl e \<Rightarrow> createEmptyTransaction_qb line (Some (''Parse error: '' @ catch_message e))))"

definition parseCRDBTransactionLine_qb :: "string \<Rightarrow> ParsedTransaction_qb" where
  "parseCRDBTransactionLine_qb line = parseCRDBTransactionLine_guarded_qb parseCRDBTransactionLine_try_qb line"

text \<open>
  The customer sheet of \<open>customerMappingService.ts\<close>, the member code embedded in a line
  (\<open>/\b(MC\d{3}[A-Z]{3})\b/i\<close>, upper-cased) and the lookup by member code.
\<close>

record SheetMapping =
  memberId :: string
  customerName :: string
  phoneNumber :: string
  transactionNumber :: string

definition memberIdPattern :: rx where
  "memberIdPattern = Seqs [WordB, Group (Seqs [Lit ''MC'', Times 3 digit, Times 3 (One [CRange CHR ''A'' CHR ''Z''])]), WordB]"







section \<open>The 21-column version of the parser\<close>

record ParsedTransaction =
  clientName :: string
  memberId :: string
  refId :: string
  userId :: string
  emailAddress :: string
  productType :: string
  productName :: string
  accountNumber :: string
  amount :: string
  type :: string
  principal :: string
  interest :: string
  charges :: string
  chargeName :: string
  transactionDate :: string
  operationType :: string
  transactionMode :: string
  transactionReferenceNumber :: string
  receiptNumber :: string
  chequeNumber :: string
  comment :: string
  rawLine :: string
  isValid :: bool
  errorMessage :: "string option"
  nationalId :: "string option"

definition createEmptyTransaction :: "string \<Rightarrow> string option \<Rightarrow> ParsedTransaction" where
  "createEmptyTransaction line msg =
     \<lparr>clientName = [], memberId = [], refId = [], userId = [], emailAddress = [],
      productType = [], productName = [], accountNumber = [], amount = [], type = [],
      principal = [], interest = [], charges = [], chargeName = [], transactionDate = [],
      operationType = [], transactionMode = [], transactionReferenceNumber = [],
      receiptNumber = [], chequeNumber = [], comment = [], rawLine = line, isValid = False,
      errorMessage = msg, nationalId = Some []\<rparr>"

definition parseTransactionLine_try :: "string \<Rightarrow> js_error + ParsedTransaction" where
  "parseTransactionLine_try trimmedLine =
     (if undefined_group False datePattern trimmedLine then Inl (type_error ''replace'')
      else if undefined_group True userNamePattern trimmedLine then Inl (type_error ''trim'')
      else if undefined_group False productNamePattern trimmedLine then Inl (type_error ''trim'')
      else
      let transactionDate = nmb_transactionDate trimmedLine;
          refId = nmb_refId trimmedLine;
          userId = nmb_userId trimmedLine;
          amount = nmb_amount trimmedLine;
          lower = toLowerCase trimmedLine;
          productType =
            (if js_includes lower ''cash deposit'' then ''Cash Deposit''
             else if js_includes lower ''transfer'' then ''Transfer''
             else if js_includes lower ''withdrawal'' then ''Withdrawal''
             else if js_includes lower ''payment'' then ''Payment''
             else ''Cash Deposit'');
          operationType =
            (if js_includes lower ''agency banking'' then ''Agency Banking''
             else if js_includes lower ''mobile'' then ''Mobile Banking''
             else if js_includes lower ''atm'' then ''ATM''
             else if js_includes lower ''branch'' then ''Branch''
             else ''Agency Banking'');
          productName = nmb_productName ''NMB Banking'' trimmedLine;
          type = (if js_includes lower ''withdrawal'' \<or> js_includes lower ''debit'' \<or> js_includes lower ''payment''
                  then ''Debit'' else ''Credit'');
          isValid = (refId \<noteq> [] \<or> amount \<noteq> [] \<or> transactionDate \<noteq> [])
      in Inr \<lparr>clientName = [], memberId = [], refId = refId, userId = userId, emailAddress = [],
              productType = productType, productName = productName, accountNumber = [],
              amount = amount, type = type, principal = [], interest = [], charges = [],
              chargeName = [], transactionDate = transactionDate, operationType = operationType,
              transactionMode = [], transactionReferenceNumber = [], receiptNumber = [],
              chequeNumber = [], comment = [], rawLine = trimmedLine, isValid = isValid,
              errorMessage = (if isValid then None else Some ''Could not extract required fields''),
              nationalId = Some []\<rparr>)"

text \<open>
  The two failure records that \<open>parseTransactionLine\<close> writes out in full have no
  \<open>nationalId\<close> (the field is optional and stays \<open>undefined\<close>).
\<close>

definition parseTransactionLine_guarded ::
  "(string \<Rightarrow> js_error + ParsedTransaction) \<Rightarrow> string \<Rightarrow> ParsedTransaction" where
  "parseTransactionLine_guarded rules line =
     (let trimmedLine = js_trim line in
      if trimmedLine = [] then
        (createEmptyTransaction line (Some ''Empty line''))\<lparr>nationalId := None\<rparr>
      else
        (case rules trimmedLine of
           Inr parsed \<Rightarrow> parsed
         | Inl e \<Rightarrow> (createEmptyTransaction trimmedLine (Some (''Parse error: '' @ catch_message e)))
                       \<lparr>nationalId := None\<rparr>))"

definition parseTransactionLine :: "string \<Rightarrow> ParsedTransaction" where
  "parseTransactionLine line = parseTransactionLine_guarded parseTransactionLine_try line"

definition parseCRDBTransactionLine_try :: "string \<Rightarrow> js_error + ParsedTransaction" where
  "parseCRDBTransactionLine_try trimmedLine =
     (if undefined_group False datePattern_crdb trimmedLine then Inl (type_error ''replace'')
      else if undefined_group False namePattern trimmedLine then Inl (type_error ''trim'')
      else
      let transactionDate = crdb_transactionDate ''-'' trimmedLine;
          amount = crdb_amount trimmedLine;
          accountNumber = crdb_accountNumber trimmedLine;
          userId = accountNumber;
          refId = crdb_refId trimmedLine;
          clientName = crdb_clientName trimmedLine;
          isValid = (amount \<noteq> [] \<or> transactionDate \<noteq> [])
      in Inr \<lparr>clientName = clientName, memberId = [], refId = refId, userId = userId, emailAddress = [],
              productType = ''Transfer'', productName = ''CRDB Transaction'', accountNumber = accountNumber,
              amount = amount, type = ''Credit'', principal = [], interest = [], charges = [],
              chargeName = [], transactionDate = transactionDate, operationType = ''Digital Banking'',
              transactionMode = ''Digital'', transactionReferenceNumber = refId, receiptNumber = [],
              chequeNumber = [], comment = trimmedLine, rawLine = trimmedLine, isValid = isValid,
              errorMessage = (if isValid then None
                              else Some ''Could not extract required fields from CRDB line''),
              nationalId = Some []\<rparr>)"

definition parseCRDBTransactionLine_guarded ::
  "(string \<Rightarrow> js_error + ParsedTransaction) \<Rightarrow> string \<Rightarrow> ParsedTransaction" where
  "parseCRDBTransactionLine_guarded rules line =
     (let trimmedLine = js_trim line in
      if trimmedLine = [] then createEmptyTransaction line (Some ''Empty line'')
      else
        (case rules trimmedLine of
           Inr parsed \<Rightarrow> parsed
         | Inl e \<Rightarrow> createEmptyTransaction line (Some (''Parse error: '' @ catch_message e))))"

definition parseCRDBTransactionLine :: "string \<Rightarrow> ParsedTransaction" where
  "parseCRDBTransactionLine line = parseCRDBTransactionLine_guarded parseCRDBTransactionLine_try line"

fun parse_loop ::
  "bank \<Rightarrow> string list \<Rightarrow> ParsedTransaction list \<Rightarrow> ParsedTransaction list
     \<Rightarrow> ParsedTransaction list \<times> ParsedTransaction list" where
  "parse_loop bt [] succ fail = (succ, fail)"
| "parse_loop bt (line # lines) succ fail =
     (let parsed = (if bt = CRDB then parseCRDBTransactionLine line else parseTransactionLine line)
      in if isValid parsed then parse_loop bt lines (succ @ [parsed]) fail
         else if js_trim line \<noteq> [] then parse_loop bt lines succ (fail @ [parsed])
         else parse_loop bt lines succ fail)"

definition parseTransactions :: "string \<Rightarrow> bank \<Rightarrow> ParsedTransaction ParseResult" where
  "parseTransactions rawData bt =
     (let lines = filter (\<lambda>line. js_trim line \<noteq> []) (js_split_nl rawData);
          (succ, fail) = parse_loop bt lines [] []
      in \<lparr>successful = succ, failed = fail, totalLines = length lines,
          successCount = length succ, failCount = length fail, bankType = bt\<rparr>)"

text \<open>The NMB sample line of the end-to-end scenario.\<close>

definition nmbSample :: string where
  "nmbSample = ''20  Jan 2026  20  Jan 2026    101 - NMB Head Office - Cash Deposit Agency banking - 2001 12 17 35 agency @22410063786@TPS900 Trx ID PS2085594242  Ter ID 2245105627   Description 963330000141!! From SAVCOM LIMITED COLLECTION ACC => VITUS VICENT ITABA  101AGD126020A4OE  12500.00    TZS 3826000.00''"

section \<open>The identity resolver\<close>

text \<open>
  A row of the table \<open>customer_mappings\<close>; a column that may be \<open>null\<close> is an option. The
  resolver is the part of \<open>handleDataSubmit\<close> that runs after the parser: when there are
  mappings, every successful record is replaced by its enrichment with the mapping that
  \<open>customerMappings.find\<close> returns.
\<close>

record CustomerMapping =
  id :: string
  member_id :: string
  ref_id :: "string option"
  customer_name :: "string option"
  email :: "string option"
  account_number :: "string option"
  phone_number :: "string option"
  loan_product :: "string option"
  created_at :: string

definition truthy :: "string option \<Rightarrow> bool" where
  "truthy v = (case v of None \<Rightarrow> False | Some x \<Rightarrow> x \<noteq> [])"

text \<open>\<open>v || d\<close> for a nullable string \<open>v\<close>.\<close>

definition or_else :: "string option \<Rightarrow> string \<Rightarrow> string" where
  "or_else v d = (case v of None \<Rightarrow> d | Some x \<Rightarrow> if x \<noteq> [] then x else d)"

text \<open>The callback of \<open>find\<close>: the three tests, in the order of the source.\<close>

definition mappingMatches :: "ParsedTransaction \<Rightarrow> CustomerMapping \<Rightarrow> bool" where
  "mappingMatches t m =
     (if member_id m \<noteq> [] \<and> member_id m = userId t then True
      else if truthy (ref_id m) \<and> ref_id m = Some (refId t) then True
      else if truthy (account_number m) \<and> (account_number m = Some (userId t) \<or> account_number m = Some (refId t))
        then True
      else False)"

definition findMapping :: "CustomerMapping list \<Rightarrow> ParsedTransaction \<Rightarrow> CustomerMapping option" where
  "findMapping customerMappings t = List.find (mappingMatches t) customerMappings"

definition applyMapping :: "CustomerMapping list \<Rightarrow> ParsedTransaction \<Rightarrow> ParsedTransaction" where
  "applyMapping customerMappings t =
     (case findMapping customerMappings t of
        Some mapping \<Rightarrow>
          t\<lparr>clientName := or_else (customer_name mapping) [],
            memberId := js_or (member_id mapping) [],
            emailAddress := or_else (email mapping) (emailAddress t),
            accountNumber := or_else (account_number mapping)
               (js_or (accountNumber t) (if member_id mapping = userId t then userId t else [])),
            productName := or_else (loan_product mapping) (productName t),
            comment := (if truthy (customer_name mapping) then ''Mapped to '' @ or_else (customer_name mapping) []
                        else comment t)\<rparr>
      | None \<Rightarrow> t)"

definition handleDataSubmit :: "CustomerMapping list \<Rightarrow> string \<Rightarrow> bank \<Rightarrow> ParsedTransaction ParseResult" where
  "handleDataSubmit customerMappings rawData bt =
     (let result = parseTransactions rawData bt in
      if length customerMappings > 0
      then result\<lparr>successful := map (applyMapping customerMappings) (successful result)\<rparr>
      else result)"

text \<open>
  Two mappings and a valid record for the examples below: the record's user id is the
  account number of the first mapping and the member id of the second.
\<close>

definition mapping_by_account :: CustomerMapping where
  "mapping_by_account =
     \<lparr>id = ''1'', member_id = ''MC001AAA'', ref_id = None, customer_name = Some ''ASHA'', email = None,
      account_number = Some ''963330000141'', phone_number = None, loan_product = None, created_at = []\<rparr>"

definition mapping_by_member :: CustomerMapping where
  "mapping_by_member =
     \<lparr>id = ''2'', member_id = ''963330000141'', ref_id = None, customer_name = Some ''BARAKA'', email = None,
      account_number = None, phone_number = None, loan_product = None, created_at = []\<rparr>"

definition example_transaction :: ParsedTransaction where
  "example_transaction =
     (createEmptyTransaction ''x'' None)\<lparr>userId := ''963330000141'', refId := ''R1'', isValid := True\<rparr>"

section \<open>The record store\<close>

text \<open>
  The store is an external service. Its state is the two tables; every call to it is
  answered by the next reply of a script: the call is accepted (with the identifier the
  store gives to an inserted batch) or it is rejected with an error value (the client of
  the store reports a failed call in the \<open>error\<close> field of its result). A call that
  finds the script used up is accepted. Every call is recorded in \<open>requests\<close>, and every
  \<open>console.error\<close> in \<open>console_error\<close>. The columns that the store fills in by itself
  (\<open>created_at\<close>, \<open>updated_at\<close>, the row id of a stored transaction) are left out.
  \<open>total_amount\<close> is a sum of floating-point numbers; here \<open>parseFloat\<close> is a parameter that
  returns a real or nothing (\<open>NaN\<close>), and the sum is the sum of reals.
\<close>

record StoredTransaction =
  batch_id :: string
  ref_id :: string
  user_id :: string
  email_address :: string
  product_type :: string
  product_name :: string
  account_number :: string
  amount :: string
  transaction_type :: string
  principal :: string
  interest :: string
  charges :: string
  charge_name :: string
  transaction_date :: string
  operation_type :: string
  transaction_mode :: string
  transaction_ref_no :: string
  receipt_no :: string
  cheque_no :: string
  comment :: string
  raw_line :: string
  is_valid :: bool
  error_message :: "string option"
  national_id :: "string option"

record TransactionBatch =
  id :: string
  session_id :: string
  batch_name :: string
  total_lines :: nat
  success_count :: nat
  fail_count :: nat
  total_amount :: real

datatype reply = Accept string | Reject js_error

datatype request =
    SelectIn string "string list"
  | InsertBatch TransactionBatch
  | InsertRows "StoredTransaction list"

record world =
  transaction_batches :: "TransactionBatch list"
  parsed_transactions :: "StoredTransaction list"
  replies :: "reply list"
  requests :: "request list"
  console_error :: "(string \<times> js_error) list"

definition next_reply :: "world \<Rightarrow> reply \<times> world" where
  "next_reply w = (case replies w of [] \<Rightarrow> (Accept [], w) | r # rs \<Rightarrow> (r, w\<lparr>replies := rs\<rparr>))"

definition log_error :: "string \<Rightarrow> js_error \<Rightarrow> world \<Rightarrow> world" where
  "log_error label e w = w\<lparr>console_error := console_error w @ [(label, e)]\<rparr>"

text \<open>
  The reply that the call number \<open>k\<close> from now on gets from a script, and whether a reply is
  a rejection.
\<close>

definition reply_at :: "reply list \<Rightarrow> nat \<Rightarrow> reply" where
  "reply_at rs k = (if k < length rs then rs ! k else Accept [])"

fun rejected :: "reply \<Rightarrow> bool" where
  "rejected (Reject e) = True"
| "rejected (Accept u) = False"

text \<open>The rows that a request offers to the table \<open>parsed_transactions\<close>.\<close>

fun rows_of :: "request \<Rightarrow> StoredTransaction list" where
  "rows_of (InsertRows chunk) = chunk"
| "rows_of (SelectIn name chunk) = []"
| "rows_of (InsertBatch row) = []"

text \<open>
  \<open>from('parsed_transactions').select(col).in(col, chunk)\<close>: the values of the column in
  the rows whose value is in the chunk.
\<close>

definition select_in :: "string \<Rightarrow> (StoredTransaction \<Rightarrow> string) \<Rightarrow> string list \<Rightarrow> world \<Rightarrow> (js_error + string list) \<times> world" where
  "select_in name col chunk w =
     (let (r, w1) = next_reply (w\<lparr>requests := requests w @ [SelectIn name chunk]\<rparr>) in
      case r of
        Reject e \<Rightarrow> (Inl e, w1)
      | Accept u \<Rightarrow> (Inr (map col (filter (\<lambda>row. col row \<in> set chunk) (parsed_transactions w1))), w1))"

text \<open>\<open>from('transaction_batches').insert(row).select().single()\<close>.\<close>

definition insert_batch :: "TransactionBatch \<Rightarrow> world \<Rightarrow> (js_error + string) \<times> world" where
  "insert_batch row w =
     (let (r, w1) = next_reply (w\<lparr>requests := requests w @ [InsertBatch row]\<rparr>) in
      case r of
        Reject e \<Rightarrow> (Inl e, w1)
      | Accept new_id \<Rightarrow> (Inr new_id, w1\<lparr>transaction_batches := transaction_batches w1 @ [row\<lparr>id := new_id\<rparr>]\<rparr>))"

text \<open>\<open>from('parsed_transactions').insert(chunk)\<close>: all the rows of the chunk, or none.\<close>

definition insert_rows :: "StoredTransaction list \<Rightarrow> world \<Rightarrow> js_error option \<times> world" where
  "insert_rows chunk w =
     (let (r, w1) = next_reply (w\<lparr>requests := requests w @ [InsertRows chunk]\<rparr>) in
      case r of
        Reject e \<Rightarrow> (Some e, w1)
      | Accept u \<Rightarrow> (None, w1\<lparr>parsed_transactions := parsed_transactions w1 @ chunk\<rparr>))"

text \<open>\<open>xs.slice(i, j)\<close> for \<open>0 \<le> i \<le> j\<close>.\<close>

definition slice :: "nat \<Rightarrow> nat \<Rightarrow> 'a list \<Rightarrow> 'a list" where
  "slice i j xs = take (j - i) (drop i xs)"

definition chunkSize :: nat where
  "chunkSize = 100"

definition batchSize :: nat where
  "batchSize = 100"

section \<open>The database service (21-column version)\<close>

text \<open>
  The loop of \<open>checkExistingTransactions\<close> over the chunks of the keys: a rejected query
  throws its error out of the loop, an accepted one adds the values it returns to the set.
\<close>

function check_loop ::
  "string \<Rightarrow> (StoredTransaction \<Rightarrow> string) \<Rightarrow> string list \<Rightarrow> nat \<Rightarrow> string set \<Rightarrow> world
     \<Rightarrow> (js_error + string set) \<times> world" where
  "check_loop name col ids i existingIds w =
     (if i < length ids then
        (let chunk = slice i (i + chunkSize) ids in
         case select_in name col chunk w of
           (Inl e, w1) \<Rightarrow> (Inl e, w1)
         | (Inr data, w1) \<Rightarrow> check_loop name col ids (i + chunkSize) (existingIds \<union> set data) w1)
      else (Inr existingIds, w))"
  by pat_completeness auto
termination
  by (relation "measure (\<lambda>(name, col, ids, i, existingIds, w). length ids - i)") (auto simp: chunkSize_def)

definition checkExistingTransactions ::
  "ParsedTransaction list \<Rightarrow> bank \<Rightarrow> world \<Rightarrow> (string set \<times> string option) \<times> world" where
  "checkExistingTransactions transactions bt w =
     (let r = (case bt of
                 NMB \<Rightarrow>
                   (let userIds = filter (\<lambda>i. i \<noteq> []) (map userId transactions) in
                    if length userIds > 0 then check_loop ''user_id'' user_id userIds 0 {} w else (Inr {}, w))
               | CRDB \<Rightarrow>
                   (let refIds = filter (\<lambda>i. i \<noteq> []) (map refId transactions) in
                    if length refIds > 0 then check_loop ''ref_id'' StoredTransaction.ref_id refIds 0 {} w else (Inr {}, w)))
      in case r of
           (Inr existingIds, w1) \<Rightarrow> ((existingIds, None), w1)
         | (Inl e, w1) \<Rightarrow> (({}, Some (catch_message e)), log_error ''Error checking duplicates:'' e w1))"

text \<open>The two maps from a parsed record to a row, for a saved record and for a failed one.\<close>

definition savedRow :: "string \<Rightarrow> ParsedTransaction \<Rightarrow> StoredTransaction" where
  "savedRow bid t =
     \<lparr>batch_id = bid, ref_id = refId t, user_id = userId t, email_address = emailAddress t,
      product_type = productType t, product_name = productName t, account_number = accountNumber t,
      amount = ParsedTransaction.amount t, transaction_type = type t,
      principal = ParsedTransaction.principal t, interest = ParsedTransaction.interest t,
      charges = ParsedTransaction.charges t, charge_name = chargeName t,
      transaction_date = transactionDate t, operation_type = operationType t,
      transaction_mode = transactionMode t, transaction_ref_no = transactionReferenceNumber t,
      receipt_no = receiptNumber t, cheque_no = chequeNumber t, comment = ParsedTransaction.comment t,
      raw_line = rawLine t, is_valid = True, error_message = None, national_id = None\<rparr>"

definition failedRow :: "string \<Rightarrow> ParsedTransaction \<Rightarrow> StoredTransaction" where
  "failedRow bid t =
     (savedRow bid t)\<lparr>is_valid := False,
        error_message := (case errorMessage t of None \<Rightarrow> None | Some m \<Rightarrow> if m \<noteq> [] then Some m else None)\<rparr>"

text \<open>
  The loop that inserts the rows in chunks of \<open>batchSize\<close>: a rejected chunk is logged and
  the loop goes on.
\<close>

function insert_loop :: "StoredTransaction list \<Rightarrow> nat \<Rightarrow> world \<Rightarrow> world" where
  "insert_loop allTransactions i w =
     (if i < length allTransactions then
        (let chunk = slice i (i + batchSize) allTransactions in
         case insert_rows chunk w of
           (Some txError, w1) \<Rightarrow> insert_loop allTransactions (i + batchSize) (log_error ''Error saving transactions:'' txError w1)
         | (None, w1) \<Rightarrow> insert_loop allTransactions (i + batchSize) w1)
      else w)"
  by pat_completeness auto
termination
  by (relation "measure (\<lambda>(allTransactions, i, w). length allTransactions - i)") (auto simp: batchSize_def)

record save_result =
  batchId :: "string option"
  error :: "string option"
  skippedCount :: nat

record env =
  sessionId :: string
  defaultBatchName :: string
  parseFloat :: "string \<Rightarrow> real option"

definition totalAmountOf :: "env \<Rightarrow> string list \<Rightarrow> real" where
  "totalAmountOf e amounts =
     foldl (\<lambda>sum a. sum + (case parseFloat e (replaceAll False (Chr CHR '','') [] a) of None \<Rightarrow> 0 | Some x \<Rightarrow> x)) 0 amounts"

definition saveBatchToDatabase :: "env \<Rightarrow> ParsedTransaction ParseResult \<Rightarrow> string option \<Rightarrow> world \<Rightarrow> save_result \<times> world" where
  "saveBatchToDatabase e result batchName w =
     (let ((existingIds, checkError), w1) = checkExistingTransactions (successful result) (bankType result) w in
      if truthy checkError then (\<lparr>batchId = None, error = checkError, skippedCount = 0\<rparr>, w1)
      else
        (let transactionsToSave =
               filter (\<lambda>t. if bankType result = NMB then userId t \<notin> existingIds else refId t \<notin> existingIds)
                 (successful result);
             skipped = length (successful result) - length transactionsToSave
         in if length transactionsToSave = 0 then (\<lparr>batchId = None, error = None, skippedCount = skipped\<rparr>, w1)
            else
              (let totalAmount = totalAmountOf e (map ParsedTransaction.amount transactionsToSave);
                   row = \<lparr>id = [], session_id = sessionId e,
                          batch_name = or_else batchName (defaultBatchName e),
                          total_lines = totalLines result, success_count = length transactionsToSave,
                          fail_count = failCount result, total_amount = totalAmount\<rparr>
               in case insert_batch row w1 of
                    (Inl batchError, w2) \<Rightarrow>
                      (\<lparr>batchId = None, error = Some (message batchError), skippedCount = 0\<rparr>,
                       log_error ''Error saving batch:'' batchError w2)
                  | (Inr new_id, w2) \<Rightarrow>
                      (let allTransactions = map (savedRow new_id) transactionsToSave @ map (failedRow new_id) (failed result)
                       in (\<lparr>batchId = Some new_id, error = None, skippedCount = skipped\<rparr>,
                           insert_loop allTransactions 0 w2)))))"

section \<open>The database service (QuickBooks version)\<close>

text \<open>Both bank formats use \<open>invoiceNo\<close> as the key, against the column \<open>ref_id\<close>.\<close>

definition checkExistingTransactions_qb ::
  "ParsedTransaction_qb list \<Rightarrow> bank \<Rightarrow> world \<Rightarrow> (string set \<times> string option) \<times> world" where
  "checkExistingTransactions_qb transactions bt w =
     (let r = (case bt of
                 NMB \<Rightarrow>
                   (let invoiceNos = filter (\<lambda>i. i \<noteq> []) (map invoiceNo transactions) in
                    if length invoiceNos > 0 then check_loop ''ref_id'' StoredTransaction.ref_id invoiceNos 0 {} w else (Inr {}, w))
               | CRDB \<Rightarrow>
                   (let invoiceNos = filter (\<lambda>i. i \<noteq> []) (map invoiceNo transactions) in
                    if length invoiceNos > 0 then check_loop ''ref_id'' StoredTransaction.ref_id invoiceNos 0 {} w else (Inr {}, w)))
      in case r of
           (Inr existingIds, w1) \<Rightarrow> ((existingIds, None), w1)
         | (Inl e, w1) \<Rightarrow> (({}, Some (catch_message e)), log_error ''Error checking duplicates:'' e w1))"

definition savedRow_qb :: "string \<Rightarrow> ParsedTransaction_qb \<Rightarrow> StoredTransaction" where
  "savedRow_qb bid t =
     \<lparr>batch_id = bid, ref_id = invoiceNo t, user_id = referenceMemo t, email_address = [],
      product_type = paymentMethod t, product_name = depositToAccountName t, account_number = [],
      amount = ParsedTransaction_qb.amount t, transaction_type = ''Credit'',
      principal = [], interest = [], charges = [], charge_name = [],
      transaction_date = paymentDate t, operation_type = paymentMethod t,
      transaction_mode = paymentMethod t, transaction_ref_no = invoiceNo t,
      receipt_no = journalNo t, cheque_no = [], comment = referenceMemo t,
      raw_line = ParsedTransaction_qb.rawLine t, is_valid = True, error_message = None, national_id = None\<rparr>"

definition failedRow_qb :: "string \<Rightarrow> ParsedTransaction_qb \<Rightarrow> StoredTransaction" where
  "failedRow_qb bid t =
     (savedRow_qb bid t)\<lparr>is_valid := False,
        error_message := (case ParsedTransaction_qb.errorMessage t of None \<Rightarrow> None
                          | Some m \<Rightarrow> if m \<noteq> [] then Some m else None)\<rparr>"

definition saveBatchToDatabase_qb :: "env \<Rightarrow> ParsedTransaction_qb ParseResult \<Rightarrow> string option \<Rightarrow> world \<Rightarrow> save_result \<times> world" where
  "saveBatchToDatabase_qb e result batchName w =
     (let ((existingIds, checkError), w1) = checkExistingTransactions_qb (successful result) (bankType result) w in
      if truthy checkError then (\<lparr>batchId = None, error = checkError, skippedCount = 0\<rparr>, w1)
      else
        (let transactionsToSave = filter (\<lambda>t. invoiceNo t \<notin> existingIds) (successful result);
             skipped = length (successful result) - length transactionsToSave
         in if length transactionsToSave = 0 then (\<lparr>batchId = None, error = None, skippedCount = skipped\<rparr>, w1)
            else
              (let totalAmount = totalAmountOf e (map ParsedTransaction_qb.amount transactionsToSave);
                   row = \<lparr>id = [], session_id = sessionId e,
                          batch_name = or_else batchName (defaultBatchName e),
                          total_lines = totalLines result, success_count = length transactionsToSave,
                          fail_count = failCount result, total_amount = totalAmount\<rparr>
               in case insert_batch row w1 of
                    (Inl batchError, w2) \<Rightarrow>
                      (\<lparr>batchId = None, error = Some (message batchError), skippedCount = 0\<rparr>,
                       log_error ''Error saving batch:'' batchError w2)
                  | (Inr new_id, w2) \<Rightarrow>
                      (let allTransactions = map (savedRow_qb new_id) transactionsToSave @ map (failedRow_qb new_id) (failed result)
                       in (\<lparr>batchId = Some new_id, error = None, skippedCount = skipped\<rparr>,
                           insert_loop allTransactions 0 w2)))))"

text \<open>
  The examples of the statements about the database service: a statement of two lines, the
  first without any field and the second with a date, a user id and a reference; a
  statement whose only line is a date; the environment of a session; a store that holds
  the given rows and answers with the given script.
\<close>

definition sampleLines :: string where
  "sampleLines = ''REF:abc'' @ [CHR 0x0A] @ ''5 Jan 2026 @22410063786@ Description 963330000141''"

definition dateOnlyLine :: string where
  "dateOnlyLine = ''20 Jan 2026''"

definition sampleEnv :: env where
  "sampleEnv = \<lparr>sessionId = ''session-1'', defaultBatchName = ''Batch'', parseFloat = (\<lambda>s. None)\<rparr>"

definition storeWith :: "StoredTransaction list \<Rightarrow> reply list \<Rightarrow> world" where
  "storeWith rows script =
     \<lparr>transaction_batches = [], parsed_transactions = rows, replies = script, requests = [], console_error = []\<rparr>"

section \<open>How the matcher runs\<close>

declare rx_match.simps [simp del]
declare rx_search.simps [simp del]
declare matchAll_from.simps [simp del]
declare replaceAll_from.simps [simp del]

text \<open>
  The matcher calls its continuation only on inputs that are no longer than the one it
  started on, so two continuations that agree there give the same result.
\<close>

lemma rx_match_cong_k:
  "(\<And>st'. length (rest st') \<le> length (rest st) \<Longrightarrow> k st' = k' st') \<Longrightarrow> rx_match ic r k st = rx_match ic r k' st"
proof (induction ic r k st arbitrary: k' rule: rx_match.induct)
  case (1 ic k st)
  then show ?case by (simp add: rx_match.simps(1))
next
  case (2 ic cs k st)
  then show ?case by (simp add: rx_match.simps(2) split: list.splits)
next
  case (3 ic cs k st)
  then show ?case by (simp add: rx_match.simps(3) split: list.splits)
next
  case (4 ic r1 r2 k st)
  have "rx_match ic r1 (\<lambda>st'. rx_match ic r2 k st') st = rx_match ic r1 (\<lambda>st'. rx_match ic r2 k' st') st"
  proof (rule "4.IH"(2))
    fix st' assume le: "length (rest st') \<le> length (rest st)"
    show "rx_match ic r2 k st' = rx_match ic r2 k' st'"
    proof (rule "4.IH"(1))
      fix st'' assume "length (rest st'') \<le> length (rest st')"
      with le have "length (rest st'') \<le> length (rest st)" by simp
      then show "k st'' = k' st''" by (rule "4.prems")
    qed
  qed
  then show ?case by (simp only: rx_match.simps(4))
next
  case (5 ic r1 r2 k st)
  have a: "rx_match ic r1 k st = rx_match ic r1 k' st" by (rule "5.IH"(1)) (rule "5.prems")
  have b: "rx_match ic r2 k st = rx_match ic r2 k' st" if "rx_match ic r1 k st = None"
    by (rule "5.IH"(2)[OF that]) (rule "5.prems")
  show ?case
  proof (cases "rx_match ic r1 k st")
    case None
    with a b show ?thesis by (simp add: rx_match.simps(5))
  next
    case (Some x)
    with a have "rx_match ic r1 k' st = Some x" by simp
    with Some show ?thesis by (simp add: rx_match.simps(5))
  qed
next
  case (6 ic r k st)
  let ?K = "\<lambda>k st'. if length (rest st') < length (rest st) then rx_match ic (Star r) k st' else None"
  have A: "rx_match ic r (?K k) st = rx_match ic r (?K k') st"
  proof (rule "6.IH"(2))
    fix st' assume le: "length (rest st') \<le> length (rest st)"
    show "?K k st' = ?K k' st'"
    proof (cases "length (rest st') < length (rest st)")
      case True
      have "rx_match ic (Star r) k st' = rx_match ic (Star r) k' st'"
      proof (rule "6.IH"(1)[OF True])
        fix st'' assume "length (rest st'') \<le> length (rest st')"
        with le have "length (rest st'') \<le> length (rest st)" by simp
        then show "k st'' = k' st''" by (rule "6.prems")
      qed
      then show ?thesis by (simp only:)
    next
      case False
      then show ?thesis by (simp only: if_False)
    qed
  qed
  have B: "k st = k' st" by (rule "6.prems") simp
  have L: "rx_match ic (Star r) k st = (case rx_match ic r (?K k) st of Some x \<Rightarrow> Some x | None \<Rightarrow> k st)"
    by (rule rx_match.simps(6))
  have L': "rx_match ic (Star r) k' st = (case rx_match ic r (?K k') st of Some x \<Rightarrow> Some x | None \<Rightarrow> k' st)"
    by (rule rx_match.simps(6))
  show ?case unfolding L L' A B by (rule refl)
next
  case (7 ic r k st)
  let ?K = "\<lambda>k st'. if length (rest st') < length (rest st) then rx_match ic (LazyStar r) k st' else None"
  have B: "k st = k' st" by (rule "7.prems") simp
  have L: "rx_match ic (LazyStar r) k st = (case k st of Some x \<Rightarrow> Some x | None \<Rightarrow> rx_match ic r (?K k) st)"
    by (rule rx_match.simps(7))
  have L': "rx_match ic (LazyStar r) k' st = (case k' st of Some x \<Rightarrow> Some x | None \<Rightarrow> rx_match ic r (?K k') st)"
    by (rule rx_match.simps(7))
  show ?case
  proof (cases "k st")
    case None
    have A: "rx_match ic r (?K k) st = rx_match ic r (?K k') st"
    proof (rule "7.IH"(2)[OF None])
      fix st' assume le: "length (rest st') \<le> length (rest st)"
      show "?K k st' = ?K k' st'"
      proof (cases "length (rest st') < length (rest st)")
        case True
        have "rx_match ic (LazyStar r) k st' = rx_match ic (LazyStar r) k' st'"
        proof (rule "7.IH"(1)[OF None True])
          fix st'' assume "length (rest st'') \<le> length (rest st')"
          with le have "length (rest st'') \<le> length (rest st)" by simp
          then show "k st'' = k' st''" by (rule "7.prems")
        qed
        then show ?thesis by (simp only:)
      next
        case False
        then show ?thesis by (simp only: if_False)
      qed
    qed
    show ?thesis unfolding L L' A B[symmetric] by (rule refl)
  next
    case (Some x)
    then show ?thesis unfolding L L' B[symmetric] by simp
  qed
next
  case (8 ic r k st)
  have "rx_match ic r (\<lambda>st'. k (MState (prev st') (rest st') (Some (rest st, rest st')))) st
      = rx_match ic r (\<lambda>st'. k' (MState (prev st') (rest st') (Some (rest st, rest st')))) st"
    by (rule "8.IH") (simp add: "8.prems")
  then show ?case by (simp only: rx_match.simps(8))
next
  case (9 ic k st)
  then show ?case by (simp add: rx_match.simps(9))
next
  case (10 ic r k st)
  have "k st = k' st" by (rule "10.prems") simp
  then show ?case by (simp add: rx_match.simps(10) split: option.splits)
next
  case (11 ic k st)
  then show ?case by (simp add: rx_match.simps(11))
qed

lemma Star_One_unfold:
  "rx_match ic (Star (One cs)) k st =
     (case rest st of [] \<Rightarrow> k st
      | c # s \<Rightarrow> if in_set ic cs c
          then (case rx_match ic (Star (One cs)) k (MState (Some c) s (cap st)) of Some x \<Rightarrow> Some x | None \<Rightarrow> k st)
          else k st)"
  by (subst rx_match.simps(6)) (simp add: rx_match.simps(2) split: list.splits)

lemma Star_NotOne_unfold:
  "rx_match ic (Star (NotOne cs)) k st =
     (case rest st of [] \<Rightarrow> k st
      | c # s \<Rightarrow> if in_set ic cs c then k st
          else (case rx_match ic (Star (NotOne cs)) k (MState (Some c) s (cap st)) of Some x \<Rightarrow> Some x | None \<Rightarrow> k st))"
  by (subst rx_match.simps(6)) (simp add: rx_match.simps(3) split: list.splits)

lemma LazyStar_One_unfold:
  "rx_match ic (LazyStar (One cs)) k st =
     (case k st of Some x \<Rightarrow> Some x
      | None \<Rightarrow> (case rest st of [] \<Rightarrow> None
          | c # s \<Rightarrow> if in_set ic cs c then rx_match ic (LazyStar (One cs)) k (MState (Some c) s (cap st)) else None))"
  by (subst rx_match.simps(7)) (simp add: rx_match.simps(2) split: list.splits option.splits)

lemma Star_Seq_One_unfold:
  "rx_match ic (Star (Seq (One cs) r)) k st =
     (case rest st of [] \<Rightarrow> k st
      | c # s \<Rightarrow> if in_set ic cs c
          then (case rx_match ic r (rx_match ic (Star (Seq (One cs) r)) k) (MState (Some c) s (cap st)) of
                  Some x \<Rightarrow> Some x | None \<Rightarrow> k st)
          else k st)"
proof (cases "rest st")
  case Nil
  then show ?thesis by (subst rx_match.simps(6)) (simp add: rx_match.simps(2,4))
next
  case (Cons c s)
  let ?S = "Star (Seq (One cs) r)"
  let ?st1 = "MState (Some c) s (cap st)"
  have "rx_match ic r (\<lambda>st'. if length (rest st') < length (rest st) then rx_match ic ?S k st' else None) ?st1
      = rx_match ic r (rx_match ic ?S k) ?st1"
    by (rule rx_match_cong_k) (simp add: Cons)
  then show ?thesis using Cons by (subst rx_match.simps(6)) (simp add: rx_match.simps(2,4))
qed


text \<open>Rules that run the matcher, the search and the string functions on a given input.\<close>

lemma orelse_simps: "orelse None b = b" "orelse (Some x) b = Some x"
  by (simp_all add: orelse_def)

lemma and_then_simps: "and_then None b = None" "and_then (Some x) b = b"
  by (simp_all add: and_then_def)

lemma close_group_MState: "close_group k a (MState p s cp) = k (MState p s (Some (a, s)))"
  by (simp add: close_group_def)

lemma one_step_simps: "one_step True k st = k st" "one_step False k st = None"
  by (simp_all add: one_step_def)

lemma star_step_simps: "star_step True f k st1 st0 = orelse (f st1) (k st0)" "star_step False f k st1 st0 = k st0"
  by (simp_all add: star_step_def)

lemma lazy_step_simps: "lazy_step True f k st1 st0 = orelse (k st0) (f st1)" "lazy_step False f k st1 st0 = k st0"
  by (simp_all add: lazy_step_def)

lemma search_step_simps: "search_step (Some st) f s = Some st" "search_step None f s = f s"
  by (simp_all add: search_step_def)

lemma starts_step_simps: "starts_step True s ps = startsWith s ps" "starts_step False s ps = False"
  by (simp_all add: starts_step_def)

lemma ev_Eps: "rx_match ic Eps k st = k st"
  by (simp add: rx_match.simps)

lemma ev_One:
  "rx_match ic (One cs) k (MState p [] cp) = None"
  "rx_match ic (One cs) k (MState p (c # s) cp) = one_step (in_set ic cs c) k (MState (Some c) s cp)"
  by (simp_all add: rx_match.simps one_step_def)

lemma ev_NotOne:
  "rx_match ic (NotOne cs) k (MState p [] cp) = None"
  "rx_match ic (NotOne cs) k (MState p (c # s) cp) = one_step (\<not> in_set ic cs c) k (MState (Some c) s cp)"
  by (simp_all add: rx_match.simps one_step_def)

lemma ev_Seq: "rx_match ic (Seq r1 r2) k st = rx_match ic r1 (rx_match ic r2 k) st"
  by (simp add: rx_match.simps)

lemma ev_Alt: "rx_match ic (Alt r1 r2) k st = orelse (rx_match ic r1 k st) (rx_match ic r2 k st)"
  by (simp add: rx_match.simps orelse_def)

lemma ev_Star_One:
  "rx_match ic (Star (One cs)) k (MState p [] cp) = k (MState p [] cp)"
  "rx_match ic (Star (One cs)) k (MState p (c # s) cp) =
     star_step (in_set ic cs c) (rx_match ic (Star (One cs)) k) k (MState (Some c) s cp) (MState p (c # s) cp)"
  by (subst Star_One_unfold, simp add: orelse_def star_step_def)+

lemma ev_Star_NotOne:
  "rx_match ic (Star (NotOne cs)) k (MState p [] cp) = k (MState p [] cp)"
  "rx_match ic (Star (NotOne cs)) k (MState p (c # s) cp) =
     star_step (\<not> in_set ic cs c) (rx_match ic (Star (NotOne cs)) k) k (MState (Some c) s cp) (MState p (c # s) cp)"
  by (subst Star_NotOne_unfold, simp add: orelse_def star_step_def)+

lemma ev_LazyStar_One:
  "rx_match ic (LazyStar (One cs)) k (MState p [] cp) = k (MState p [] cp)"
  "rx_match ic (LazyStar (One cs)) k (MState p (c # s) cp) =
     lazy_step (in_set ic cs c) (rx_match ic (LazyStar (One cs)) k) k (MState (Some c) s cp) (MState p (c # s) cp)"
  by (subst LazyStar_One_unfold, simp add: orelse_def lazy_step_def split: option.splits)+

lemma ev_Star_Seq_One:
  "rx_match ic (Star (Seq (One cs) r)) k (MState p [] cp) = k (MState p [] cp)"
  "rx_match ic (Star (Seq (One cs) r)) k (MState p (c # s) cp) =
     star_step (in_set ic cs c) (rx_match ic r (rx_match ic (Star (Seq (One cs) r)) k)) k
       (MState (Some c) s cp) (MState p (c # s) cp)"
  by (subst Star_Seq_One_unfold, simp add: orelse_def star_step_def)+

lemma ev_Group: "rx_match ic (Group r) k (MState p s cp) = rx_match ic r (close_group k s) (MState p s cp)"
  by (simp add: rx_match.simps close_group_def[abs_def])

lemma ev_Eol:
  "rx_match ic Eol k (MState p [] cp) = k (MState p [] cp)"
  "rx_match ic Eol k (MState p (c # s) cp) = None"
  by (simp_all add: rx_match.simps)

lemma ev_Ahead: "rx_match ic (Ahead r) k st = and_then (rx_match ic r Some st) (k st)"
  by (simp add: rx_match.simps and_then_def split: option.splits)

lemma ev_WordB: "rx_match ic WordB k st = one_step (at_word_boundary st) k st"
  by (simp add: rx_match.simps one_step_def)

lemma ev_search:
  "rx_search ic r p [] = rx_match ic r Some (MState p [] None)"
  "rx_search ic r p (c # s) = search_step (rx_match ic r Some (MState p (c # s) None)) (rx_search ic r (Some c)) s"
  by (simp_all add: search_step_def rx_search.simps)

lemma ev_matchAll_from:
  "matchAll_from ic r p s = matchAll_step ic r s (rx_match ic r Some (MState p s None))"
  by (subst matchAll_from.simps) (simp add: matchAll_step_def)

lemma ev_matchAll:
  "matchAll_step ic r [] None = []"
  "matchAll_step ic r (c # s') None = matchAll_from ic r (Some c) s'"
  "matchAll_step ic r s (Some (MState p' s' cp)) =
     (if length s' < length s then group1 (MState p' s' cp) # matchAll_from ic r p' s'
      else (case s of [] \<Rightarrow> [group1 (MState p' s' cp)] | c # s'' \<Rightarrow> group1 (MState p' s' cp) # matchAll_from ic r (Some c) s''))"
  by (simp_all add: matchAll_step_def)

lemma ev_replaceAll_from:
  "replaceAll_from ic r t p s = replaceAll_step ic r t s (rx_match ic r Some (MState p s None))"
  by (subst replaceAll_from.simps) (simp add: replaceAll_step_def)

lemma ev_replaceAll:
  "replaceAll_step ic r t [] None = []"
  "replaceAll_step ic r t (c # s') None = c # replaceAll_from ic r t (Some c) s'"
  "replaceAll_step ic r t s (Some (MState p' s' cp)) =
     (if length s' < length s then t @ replaceAll_from ic r t p' s'
      else (case s of [] \<Rightarrow> t | c # s'' \<Rightarrow> t @ c # replaceAll_from ic r t (Some c) s''))"
  by (simp_all add: replaceAll_step_def)

lemma ev_startsWith:
  "startsWith s [] = True"
  "startsWith [] (p # ps) = False"
  "startsWith (c # s) (p # ps) = starts_step (c = p) s ps"
  by (simp_all add: starts_step_def)

lemma Times_numeral: "Times (numeral n) r = Seq r (Times (pred_numeral n) r)"
  by (simp add: numeral_eq_Suc)

lemma UpTo_numeral: "UpTo (numeral n) r = Opt (Seq r (UpTo (pred_numeral n) r))"
  by (simp add: numeral_eq_Suc)

lemma isDigit_Char:
  "isDigit (Char b0 b1 b2 b3 b4 b5 b6 b7) = (\<not> b7 \<and> \<not> b6 \<and> b5 \<and> b4 \<and> (\<not> b3 \<or> (\<not> b2 \<and> \<not> b1)))"
  unfolding isDigit_def in_range_def
  by (cases b7; cases b6; cases b5; cases b4; simp; cases b3; cases b2; cases b1; cases b0; simp)

lemma isUpper_Char:
  "isUpper (Char b0 b1 b2 b3 b4 b5 b6 b7) =
     (b6 \<and> \<not> b5 \<and> (if b7 then \<not> (b4 \<and> b2 \<and> b1 \<and> b0)
                      else (if b4 then \<not> b3 \<or> (\<not> b2 \<and> \<not> (b1 \<and> b0)) else b3 \<or> b2 \<or> b1 \<or> b0)))"
  unfolding isUpper_def in_range_def
  by (cases b7; cases b6; cases b5; simp; cases b4; cases b3; cases b2; cases b1; cases b0; simp)

lemma isLower_Char:
  "isLower (Char b0 b1 b2 b3 b4 b5 b6 b7) =
     (b6 \<and> b5 \<and> (if b7 then \<not> (b4 \<and> b2 \<and> b1 \<and> b0)
                    else (if b4 then \<not> b3 \<or> (\<not> b2 \<and> \<not> (b1 \<and> b0)) else b3 \<or> b2 \<or> b1 \<or> b0)))"
  unfolding isLower_def in_range_def
  by (cases b7; cases b6; cases b5; simp; cases b4; cases b3; cases b2; cases b1; cases b0; simp)

lemma range_AZ_Char:
  "in_range CHR ''A'' CHR ''Z'' (Char b0 b1 b2 b3 b4 b5 b6 b7) =
     (\<not> b7 \<and> b6 \<and> \<not> b5 \<and> (if b4 then \<not> b3 \<or> (\<not> b2 \<and> \<not> (b1 \<and> b0)) else b3 \<or> b2 \<or> b1 \<or> b0))"
  unfolding in_range_def
  by (cases b7; cases b6; cases b5; simp; cases b4; cases b3; cases b2; cases b1; cases b0; simp)

lemma range_az_Char:
  "in_range CHR ''a'' CHR ''z'' (Char b0 b1 b2 b3 b4 b5 b6 b7) =
     (\<not> b7 \<and> b6 \<and> b5 \<and> (if b4 then \<not> b3 \<or> (\<not> b2 \<and> \<not> (b1 \<and> b0)) else b3 \<or> b2 \<or> b1 \<or> b0))"
  unfolding in_range_def
  by (cases b7; cases b6; cases b5; simp; cases b4; cases b3; cases b2; cases b1; cases b0; simp)

lemmas char_ev = isDigit_Char isUpper_Char isLower_Char range_AZ_Char range_az_Char isWhiteSpace_def
  in_cls.simps in_set_def isWordChar_def at_word_boundary_def

lemmas rx_ev = ev_Eps ev_One ev_NotOne ev_Seq ev_Alt ev_Star_One ev_Star_NotOne ev_LazyStar_One ev_Star_Seq_One
  ev_Group ev_Eol ev_Ahead ev_WordB ev_search orelse_simps and_then_simps close_group_MState
  one_step_simps star_step_simps lazy_step_simps search_step_simps match1_def group1_def
  ev_matchAll_from ev_matchAll matchAll1_def ev_replaceAll_from ev_replaceAll replaceAll_def

lemmas rx_core = Times_numeral UpTo_numeral Plus_def LazyPlus_def Opt_def Between_def Chr_def digit_def ws_def tab_def

lemmas pattern_defs = number_def datePattern_def descriptionPattern_def userIdPattern_def userNamePattern_def
  amountPattern_def altAmountPattern_def depositPattern_def productNamePattern_def datePattern_crdb_def
  amountsRegex_def accountPattern_def refPattern_def namePattern_def memberIdPattern_def

lemmas rule_defs = nmb_transactionDate_def nmb_refId_def nmb_userName_def nmb_userId_def nmb_amount_def
  nmb_productName_def crdb_transactionDate_def crdb_amount_def crdb_accountNumber_def crdb_refId_def
  crdb_clientName_def selectAmount_def

lemmas run_rules = rule_defs pattern_defs rx_core rx_ev char_ev

text \<open>
  A result of the matcher is a result of its continuation, and the matcher never
  forgets a group that is set.
\<close>

lemma cap_kept:
  "rx_match ic r k st = Some x \<Longrightarrow> \<exists>st'. k st' = Some x \<and> (cap st \<noteq> None \<longrightarrow> cap st' \<noteq> None)"
proof (induction ic r k st arbitrary: x rule: rx_match.induct)
  case (1 ic k st)
  then show ?case by (auto simp add: rx_match.simps(1))
next
  case (2 ic cs k st)
  then show ?case by (auto simp add: rx_match.simps(2) split: list.splits if_splits)
next
  case (3 ic cs k st)
  then show ?case by (auto simp add: rx_match.simps(3) split: list.splits if_splits)
next
  case (4 ic r1 r2 k st)
  from "4.prems" have "rx_match ic r1 (\<lambda>st'. rx_match ic r2 k st') st = Some x"
    by (simp only: rx_match.simps(4))
  from "4.IH"(2)[OF this] obtain st1 where
    a: "rx_match ic r2 k st1 = Some x" and b: "cap st \<noteq> None \<longrightarrow> cap st1 \<noteq> None" by blast
  from "4.IH"(1)[OF a] obtain st' where "k st' = Some x" "cap st1 \<noteq> None \<longrightarrow> cap st' \<noteq> None" by blast
  with b show ?case by blast
next
  case (5 ic r1 r2 k st)
  show ?case
  proof (cases "rx_match ic r1 k st")
    case None
    with "5.prems" have "rx_match ic r2 k st = Some x" by (simp add: rx_match.simps(5))
    from "5.IH"(2)[OF None this] show ?thesis .
  next
    case (Some y)
    with "5.prems" have "rx_match ic r1 k st = Some x" by (simp add: rx_match.simps(5))
    from "5.IH"(1)[OF this] show ?thesis .
  qed
next
  case (6 ic r k st)
  let ?K = "\<lambda>st'. if length (rest st') < length (rest st) then rx_match ic (Star r) k st' else None"
  have L: "rx_match ic (Star r) k st = (case rx_match ic r ?K st of Some x \<Rightarrow> Some x | None \<Rightarrow> k st)"
    by (rule rx_match.simps(6))
  show ?case
  proof (cases "rx_match ic r ?K st")
    case None
    with "6.prems" L have "k st = Some x" by simp
    then show ?thesis by blast
  next
    case (Some y)
    with "6.prems" L have e: "rx_match ic r ?K st = Some x" by simp
    from "6.IH"(2)[OF e] obtain st1 where
      a: "?K st1 = Some x" and b: "cap st \<noteq> None \<longrightarrow> cap st1 \<noteq> None" by blast
    from a have lt: "length (rest st1) < length (rest st)" and c: "rx_match ic (Star r) k st1 = Some x"
      by (simp_all split: if_splits)
    from "6.IH"(1)[OF lt c] obtain st' where "k st' = Some x" "cap st1 \<noteq> None \<longrightarrow> cap st' \<noteq> None" by blast
    with b show ?thesis by blast
  qed
next
  case (7 ic r k st)
  let ?K = "\<lambda>st'. if length (rest st') < length (rest st) then rx_match ic (LazyStar r) k st' else None"
  have L: "rx_match ic (LazyStar r) k st = (case k st of Some x \<Rightarrow> Some x | None \<Rightarrow> rx_match ic r ?K st)"
    by (rule rx_match.simps(7))
  show ?case
  proof (cases "k st")
    case (Some y)
    with "7.prems" L have "k st = Some x" by simp
    then show ?thesis by blast
  next
    case None
    with "7.prems" L have e: "rx_match ic r ?K st = Some x" by simp
    from "7.IH"(2)[OF None e] obtain st1 where
      a: "?K st1 = Some x" and b: "cap st \<noteq> None \<longrightarrow> cap st1 \<noteq> None" by blast
    from a have lt: "length (rest st1) < length (rest st)" and c: "rx_match ic (LazyStar r) k st1 = Some x"
      by (simp_all split: if_splits)
    from "7.IH"(1)[OF None lt c] obtain st' where "k st' = Some x" "cap st1 \<noteq> None \<longrightarrow> cap st' \<noteq> None" by blast
    with b show ?thesis by blast
  qed
next
  case (8 ic r k st)
  from "8.prems" have "rx_match ic r (\<lambda>st'. k (MState (prev st') (rest st') (Some (rest st, rest st')))) st = Some x"
    by (simp only: rx_match.simps(8))
  from "8.IH"[OF this] obtain st1 where "k (MState (prev st1) (rest st1) (Some (rest st, rest st1))) = Some x" by blast
  then have "k (MState (prev st1) (rest st1) (Some (rest st, rest st1))) = Some x \<and>
             cap (MState (prev st1) (rest st1) (Some (rest st, rest st1))) \<noteq> None" by simp
  then show ?case by blast
next
  case (9 ic k st)
  then show ?case by (auto simp add: rx_match.simps(9) split: if_splits)
next
  case (10 ic r k st)
  then show ?case by (auto simp add: rx_match.simps(10) split: option.splits)
next
  case (11 ic k st)
  then show ?case by (auto simp add: rx_match.simps(11) split: if_splits)
qed

lemma Group_captures:
  assumes "rx_match ic (Group r) k st = Some x"
  shows "\<exists>st'. k st' = Some x \<and> cap st' \<noteq> None"
proof -
  from assms have "rx_match ic r (\<lambda>st'. k (MState (prev st') (rest st') (Some (rest st, rest st')))) st = Some x"
    by (simp only: rx_match.simps(8))
  from cap_kept[OF this] obtain st1 where "k (MState (prev st1) (rest st1) (Some (rest st, rest st1))) = Some x" by blast
  then have "k (MState (prev st1) (rest st1) (Some (rest st, rest st1))) = Some x \<and>
             cap (MState (prev st1) (rest st1) (Some (rest st, rest st1))) \<noteq> None" by simp
  then show ?thesis by blast
qed

lemma always_captures_sound:
  "always_captures r \<Longrightarrow> rx_match ic r k st = Some x \<Longrightarrow> \<exists>st'. k st' = Some x \<and> cap st' \<noteq> None"
proof (induction r arbitrary: k st)
  case (Group r)
  from Group_captures[OF Group.prems(2)] show ?case .
next
  case (Seq r1 r2)
  from Seq.prems(2) have m: "rx_match ic r1 (rx_match ic r2 k) st = Some x" by (simp only: ev_Seq)
  show ?case
  proof (cases "always_captures r1")
    case True
    from Seq.IH(1)[OF True m] obtain st1 where a: "rx_match ic r2 k st1 = Some x" and b: "cap st1 \<noteq> None" by blast
    from cap_kept[OF a] b show ?thesis by blast
  next
    case False
    with Seq.prems(1) have c: "always_captures r2" by simp
    from cap_kept[OF m] obtain st1 where a: "rx_match ic r2 k st1 = Some x" by blast
    from Seq.IH(2)[OF c a] show ?thesis .
  qed
qed simp_all

lemma search_captures:
  "always_captures r \<Longrightarrow> rx_search ic r p s = Some st \<Longrightarrow> cap st \<noteq> None"
proof (induction s arbitrary: p)
  case Nil
  then have "rx_match ic r Some (MState p [] None) = Some st" by (simp add: rx_search.simps)
  from always_captures_sound[OF Nil.prems(1) this] show ?case by auto
next
  case (Cons c s)
  show ?case
  proof (cases "rx_match ic r Some (MState p (c # s) None)")
    case None
    with Cons.prems(2) have "rx_search ic r (Some c) s = Some st" by (simp add: rx_search.simps)
    from Cons.IH[OF Cons.prems(1) this] show ?thesis .
  next
    case (Some y)
    with Cons.prems(2) have "rx_match ic r Some (MState p (c # s) None) = Some st" by (simp add: rx_search.simps)
    from always_captures_sound[OF Cons.prems(1) this] show ?thesis by auto
  qed
qed

lemma group_defined: "always_captures r \<Longrightarrow> undefined_group ic r s = False"
  by (auto simp add: undefined_group_def dest: search_captures split: option.splits)

lemma patterns_capture:
  "always_captures datePattern"
  "always_captures userNamePattern"
  "always_captures productNamePattern"
  "always_captures datePattern_crdb"
  "always_captures namePattern"
  by (simp_all add: datePattern_def userNamePattern_def productNamePattern_def datePattern_crdb_def namePattern_def)

lemmas no_undefined_group = patterns_capture[THEN group_defined]

section \<open>The extractors, field by field\<close>

lemma nmb_fields:
  "js_trim line \<noteq> [] \<Longrightarrow> refId (parseTransactionLine line) = nmb_refId (js_trim line)"
  "js_trim line \<noteq> [] \<Longrightarrow> userId (parseTransactionLine line) = nmb_userId (js_trim line)"
  "js_trim line \<noteq> [] \<Longrightarrow> ParsedTransaction.amount (parseTransactionLine line) = nmb_amount (js_trim line)"
  "js_trim line \<noteq> [] \<Longrightarrow> transactionDate (parseTransactionLine line) = nmb_transactionDate (js_trim line)"
  "js_trim line \<noteq> [] \<Longrightarrow> isValid (parseTransactionLine line) =
      (nmb_refId (js_trim line) \<noteq> [] \<or> nmb_amount (js_trim line) \<noteq> [] \<or> nmb_transactionDate (js_trim line) \<noteq> [])"
  "js_trim line \<noteq> [] \<Longrightarrow> rawLine (parseTransactionLine line) = js_trim line"
  by (simp_all add: parseTransactionLine_def parseTransactionLine_guarded_def parseTransactionLine_try_def
        no_undefined_group Let_def)

lemma nmb_fields_qb:
  "js_trim line \<noteq> [] \<Longrightarrow> invoiceNo (parseTransactionLine_qb line) = nmb_refId (js_trim line)"
  "js_trim line \<noteq> [] \<Longrightarrow> referenceMemo (parseTransactionLine_qb line) =
      (if nmb_userId (js_trim line) \<noteq> [] then nmb_userId (js_trim line) else nmb_refId (js_trim line))"
  "js_trim line \<noteq> [] \<Longrightarrow> ParsedTransaction_qb.amount (parseTransactionLine_qb line) = nmb_amount (js_trim line)"
  "js_trim line \<noteq> [] \<Longrightarrow> paymentDate (parseTransactionLine_qb line) = nmb_transactionDate (js_trim line)"
  "js_trim line \<noteq> [] \<Longrightarrow> ParsedTransaction_qb.isValid (parseTransactionLine_qb line) =
      (nmb_refId (js_trim line) \<noteq> [] \<or> nmb_amount (js_trim line) \<noteq> [] \<or> nmb_transactionDate (js_trim line) \<noteq> [])"
  by (simp_all add: parseTransactionLine_qb_def parseTransactionLine_guarded_qb_def parseTransactionLine_try_qb_def
        no_undefined_group Let_def)

lemma crdb_fields:
  "js_trim line \<noteq> [] \<Longrightarrow> refId (parseCRDBTransactionLine line) = crdb_refId (js_trim line)"
  "js_trim line \<noteq> [] \<Longrightarrow> userId (parseCRDBTransactionLine line) = crdb_accountNumber (js_trim line)"
  "js_trim line \<noteq> [] \<Longrightarrow> ParsedTransaction.amount (parseCRDBTransactionLine line) = crdb_amount (js_trim line)"
  "js_trim line \<noteq> [] \<Longrightarrow> transactionDate (parseCRDBTransactionLine line) = crdb_transactionDate ''-'' (js_trim line)"
  "js_trim line \<noteq> [] \<Longrightarrow> isValid (parseCRDBTransactionLine line) =
      (crdb_amount (js_trim line) \<noteq> [] \<or> crdb_transactionDate ''-'' (js_trim line) \<noteq> [])"
  by (simp_all add: parseCRDBTransactionLine_def parseCRDBTransactionLine_guarded_def parseCRDBTransactionLine_try_def
        no_undefined_group Let_def)

lemma crdb_fields_qb:
  "js_trim line \<noteq> [] \<Longrightarrow> invoiceNo (parseCRDBTransactionLine_qb line) = crdb_refId (js_trim line)"
  "js_trim line \<noteq> [] \<Longrightarrow> ParsedTransaction_qb.amount (parseCRDBTransactionLine_qb line) = crdb_amount (js_trim line)"
  "js_trim line \<noteq> [] \<Longrightarrow> paymentDate (parseCRDBTransactionLine_qb line) = crdb_transactionDate ''/'' (js_trim line)"
  "js_trim line \<noteq> [] \<Longrightarrow> ParsedTransaction_qb.isValid (parseCRDBTransactionLine_qb line) =
      (crdb_amount (js_trim line) \<noteq> [] \<or> crdb_transactionDate ''/'' (js_trim line) \<noteq> [])"
  by (simp_all add: parseCRDBTransactionLine_qb_def parseCRDBTransactionLine_guarded_qb_def
        parseCRDBTransactionLine_try_qb_def no_undefined_group Let_def)

lemma blank_line:
  "js_trim line = [] \<Longrightarrow> parseTransactionLine line = (createEmptyTransaction line (Some ''Empty line''))\<lparr>nationalId := None\<rparr>"
  "js_trim line = [] \<Longrightarrow> parseCRDBTransactionLine line = createEmptyTransaction line (Some ''Empty line'')"
  "js_trim line = [] \<Longrightarrow> parseTransactionLine_qb line = createEmptyTransaction_qb line (Some ''Empty line'')"
  "js_trim line = [] \<Longrightarrow> parseCRDBTransactionLine_qb line = createEmptyTransaction_qb line (Some ''Empty line'')"
  by (simp_all add: parseTransactionLine_def parseTransactionLine_guarded_def parseCRDBTransactionLine_def
        parseCRDBTransactionLine_guarded_def parseTransactionLine_qb_def parseTransactionLine_guarded_qb_def
        parseCRDBTransactionLine_qb_def parseCRDBTransactionLine_guarded_qb_def)

lemma invalid_has_message:
  "\<not> isValid (parseTransactionLine line) \<Longrightarrow> \<exists>m. errorMessage (parseTransactionLine line) = Some m \<and> m \<noteq> []"
  "\<not> isValid (parseCRDBTransactionLine line) \<Longrightarrow> \<exists>m. errorMessage (parseCRDBTransactionLine line) = Some m \<and> m \<noteq> []"
  "\<not> ParsedTransaction_qb.isValid (parseTransactionLine_qb line) \<Longrightarrow>
     \<exists>m. ParsedTransaction_qb.errorMessage (parseTransactionLine_qb line) = Some m \<and> m \<noteq> []"
  "\<not> ParsedTransaction_qb.isValid (parseCRDBTransactionLine_qb line) \<Longrightarrow>
     \<exists>m. ParsedTransaction_qb.errorMessage (parseCRDBTransactionLine_qb line) = Some m \<and> m \<noteq> []"
  by (auto simp add: parseTransactionLine_def parseTransactionLine_guarded_def parseTransactionLine_try_def
        parseCRDBTransactionLine_def parseCRDBTransactionLine_guarded_def parseCRDBTransactionLine_try_def
        parseTransactionLine_qb_def parseTransactionLine_guarded_qb_def parseTransactionLine_try_qb_def
        parseCRDBTransactionLine_qb_def parseCRDBTransactionLine_guarded_qb_def parseCRDBTransactionLine_try_qb_def
        createEmptyTransaction_def createEmptyTransaction_qb_def no_undefined_group Let_def split: if_splits)

lemma trim_REF: "js_trim ''REF:abc'' = ''REF:abc''"
  by (simp add: js_trim_def char_ev)


lemma run_REF:
  "crdb_refId ''REF:abc'' = ''abc''"
  "crdb_amount ''REF:abc'' = []"
  "crdb_transactionDate ''-'' ''REF:abc'' = []"
  "crdb_transactionDate ''/'' ''REF:abc'' = []"
  by (simp_all add: run_rules)

section \<open>The record invariant\<close>

text \<open>
  C3, as the code has it. For every line, the NMB extractor returns a record that is
  valid exactly when its reference id, its amount or its date is not empty; the CRDB
  extractor returns a record that is valid exactly when its amount or its date is not
  empty (the reference id does not count); and every record that is not valid carries an
  error message that is not empty. This holds in both versions of the parser.
\<close>

theorem record_invariant:
  "(isValid (parseTransactionLine line) \<longleftrightarrow>
      refId (parseTransactionLine line) \<noteq> [] \<or> ParsedTransaction.amount (parseTransactionLine line) \<noteq> []
        \<or> transactionDate (parseTransactionLine line) \<noteq> []) \<and>
   (isValid (parseCRDBTransactionLine line) \<longleftrightarrow>
      ParsedTransaction.amount (parseCRDBTransactionLine line) \<noteq> [] \<or> transactionDate (parseCRDBTransactionLine line) \<noteq> []) \<and>
   (ParsedTransaction_qb.isValid (parseTransactionLine_qb line) \<longleftrightarrow>
      invoiceNo (parseTransactionLine_qb line) \<noteq> [] \<or> ParsedTransaction_qb.amount (parseTransactionLine_qb line) \<noteq> []
        \<or> paymentDate (parseTransactionLine_qb line) \<noteq> []) \<and>
   (ParsedTransaction_qb.isValid (parseCRDBTransactionLine_qb line) \<longleftrightarrow>
      ParsedTransaction_qb.amount (parseCRDBTransactionLine_qb line) \<noteq> [] \<or> paymentDate (parseCRDBTransactionLine_qb line) \<noteq> []) \<and>
   (\<not> isValid (parseTransactionLine line) \<longrightarrow>
      (\<exists>m. errorMessage (parseTransactionLine line) = Some m \<and> m \<noteq> [])) \<and>
   (\<not> isValid (parseCRDBTransactionLine line) \<longrightarrow>
      (\<exists>m. errorMessage (parseCRDBTransactionLine line) = Some m \<and> m \<noteq> [])) \<and>
   (\<not> ParsedTransaction_qb.isValid (parseTransactionLine_qb line) \<longrightarrow>
      (\<exists>m. ParsedTransaction_qb.errorMessage (parseTransactionLine_qb line) = Some m \<and> m \<noteq> [])) \<and>
   (\<not> ParsedTransaction_qb.isValid (parseCRDBTransactionLine_qb line) \<longrightarrow>
      (\<exists>m. ParsedTransaction_qb.errorMessage (parseCRDBTransactionLine_qb line) = Some m \<and> m \<noteq> []))"
proof (cases "js_trim line = []")
  case True
  then show ?thesis
    by (simp add: blank_line createEmptyTransaction_def createEmptyTransaction_qb_def)
next
  case False
  then show ?thesis
    using invalid_has_message[of line]
    by (simp add: nmb_fields nmb_fields_qb crdb_fields crdb_fields_qb)
qed

text \<open>
  The witness is the line \<open>REF:abc\<close>: the CRDB extractor finds neither an amount nor a date,
  so the record is not valid and carries the message of the CRDB extractor.
\<close>

theorem record_invariant_witness:
  "\<not> isValid (parseCRDBTransactionLine ''REF:abc'') \<and>
   (\<exists>m. errorMessage (parseCRDBTransactionLine ''REF:abc'') = Some m \<and> m \<noteq> [])"
  using record_invariant[of "''REF:abc''"]
  by (simp add: crdb_fields trim_REF run_REF)

text \<open>
  The claim as it is written fails on the CRDB extractor: the line \<open>REF:abc\<close> gives a
  record with the reference id \<open>abc\<close> that is not valid.
\<close>

theorem record_invariant_counterexample:
  "\<not> (isValid (parseCRDBTransactionLine ''REF:abc'') \<longleftrightarrow>
        (refId (parseCRDBTransactionLine ''REF:abc'') \<noteq> [] \<or>
         ParsedTransaction.amount (parseCRDBTransactionLine ''REF:abc'') \<noteq> [] \<or>
         transactionDate (parseCRDBTransactionLine ''REF:abc'') \<noteq> []))"
  by (simp add: crdb_fields trim_REF run_REF)

section \<open>Containment of faults\<close>






section \<open>The batch parser\<close>















section \<open>The identity resolver selects the first match\<close>

lemma find_first:
  "List.find P xs = Some x \<longleftrightarrow> (\<exists>i < length xs. xs ! i = x \<and> P x \<and> (\<forall>j < i. \<not> P (xs ! j)))"
  by (auto simp add: find_Some_iff)

lemma mappingMatches_iff:
  "mappingMatches t m \<longleftrightarrow>
      (member_id m \<noteq> [] \<and> member_id m = userId t) \<or>
      (CustomerMapping.ref_id m \<noteq> Some [] \<and> CustomerMapping.ref_id m = Some (refId t)) \<or>
      (CustomerMapping.account_number m \<noteq> Some [] \<and>
         (CustomerMapping.account_number m = Some (userId t) \<or> CustomerMapping.account_number m = Some (refId t)))"
  by (auto simp add: mappingMatches_def truthy_def split: option.splits)

lemma applyMapping_found:
  "findMapping ms t = Some m \<Longrightarrow>
      clientName (applyMapping ms t) = or_else (customer_name m) [] \<and>
      memberId (applyMapping ms t) = member_id m \<and>
      productName (applyMapping ms t) = or_else (loan_product m) (productName t)"
  by (simp add: applyMapping_def js_or_def)

lemma applyMapping_none: "findMapping ms t = None \<Longrightarrow> applyMapping ms t = t"
  by (simp add: applyMapping_def)

text \<open>
  C2, as the code has it. The resolver selects the first mapping, in the order of the
  list, that matches the record by any of the three keys: a member id that is not empty
  and equals the record's user id, a reference id that is not empty and equals the
  record's reference id, or an account number that is not empty and equals the record's
  user id or reference id. No mapping is selected exactly when none matches. The three
  tests are tried in this order on one mapping; across the list there is no order of
  tiers. With a non-empty list of mappings \<open>handleDataSubmit\<close> enriches every successful
  record with the mapping selected for it, and leaves a record without a mapping as it is.
\<close>

theorem resolver_takes_first_match:
  "(findMapping ms t = Some m \<longleftrightarrow>
      (\<exists>i < length ms. ms ! i = m \<and> mappingMatches t m \<and> (\<forall>j < i. \<not> mappingMatches t (ms ! j)))) \<and>
   (findMapping ms t = None \<longleftrightarrow> (\<forall>x \<in> set ms. \<not> mappingMatches t x)) \<and>
   (mappingMatches t m \<longleftrightarrow>
      (member_id m \<noteq> [] \<and> member_id m = userId t) \<or>
      (CustomerMapping.ref_id m \<noteq> Some [] \<and> CustomerMapping.ref_id m = Some (refId t)) \<or>
      (CustomerMapping.account_number m \<noteq> Some [] \<and>
         (CustomerMapping.account_number m = Some (userId t) \<or> CustomerMapping.account_number m = Some (refId t)))) \<and>
   (ms \<noteq> [] \<longrightarrow> successful (handleDataSubmit ms rawData bt) = map (applyMapping ms) (successful (parseTransactions rawData bt))) \<and>
   (findMapping ms t = None \<longrightarrow> applyMapping ms t = t) \<and>
   (findMapping ms t = Some m \<longrightarrow>
      clientName (applyMapping ms t) = or_else (customer_name m) [] \<and>
      memberId (applyMapping ms t) = member_id m \<and>
      productName (applyMapping ms t) = or_else (loan_product m) (productName t))"
proof -
  have a: "findMapping ms t = Some m \<longleftrightarrow>
      (\<exists>i < length ms. ms ! i = m \<and> mappingMatches t m \<and> (\<forall>j < i. \<not> mappingMatches t (ms ! j)))"
    unfolding findMapping_def by (rule find_first)
  have b: "findMapping ms t = None \<longleftrightarrow> (\<forall>x \<in> set ms. \<not> mappingMatches t x)"
    unfolding findMapping_def by (auto simp add: find_None_iff)
  have c: "ms \<noteq> [] \<longrightarrow> successful (handleDataSubmit ms rawData bt) = map (applyMapping ms) (successful (parseTransactions rawData bt))"
    by (simp add: handleDataSubmit_def Let_def)
  show ?thesis
    using a b c mappingMatches_iff[of t m] applyMapping_found[of ms t m] applyMapping_none[of ms t]
    by blast
qed

lemma example_find:
  "findMapping [mapping_by_account, mapping_by_member] example_transaction = Some mapping_by_account"
  by (simp add: findMapping_def mappingMatches_def truthy_def mapping_by_account_def mapping_by_member_def
        example_transaction_def createEmptyTransaction_def)

text \<open>The witness: the mapping that matches by account number stands first and is selected.\<close>

theorem resolver_takes_first_match_witness:
  "findMapping [mapping_by_account, mapping_by_member] example_transaction = Some mapping_by_account \<and>
   mappingMatches example_transaction mapping_by_account \<and>
   clientName (applyMapping [mapping_by_account, mapping_by_member] example_transaction) = ''ASHA''"
proof -
  note th = resolver_takes_first_match[of "[mapping_by_account, mapping_by_member]" example_transaction mapping_by_account]
  have "mappingMatches example_transaction mapping_by_account"
    using th example_find by blast
  moreover have "clientName (applyMapping [mapping_by_account, mapping_by_member] example_transaction)
      = or_else (customer_name mapping_by_account) []"
    using th example_find by blast
  ultimately show ?thesis
    using example_find by (simp add: or_else_def mapping_by_account_def)
qed

text \<open>
  The claim as it is written fails: the first mapping matches the record only by its
  account number, the second matches it by its member id, and the first is selected.
\<close>

theorem resolver_priority_counterexample:
  "findMapping [mapping_by_account, mapping_by_member] example_transaction = Some mapping_by_account \<and>
   member_id mapping_by_member = userId example_transaction \<and>
   member_id mapping_by_account \<noteq> userId example_transaction \<and>
   CustomerMapping.ref_id mapping_by_account \<noteq> Some (refId example_transaction) \<and>
   CustomerMapping.account_number mapping_by_account = Some (userId example_transaction) \<and>
   isValid example_transaction"
  by (simp add: example_find)
     (simp add: mapping_by_account_def mapping_by_member_def example_transaction_def createEmptyTransaction_def)


section \<open>The amount of a CRDB line\<close>

lemma selectAmount_cases:
  "3 \<le> length xs \<Longrightarrow> selectAmount xs = xs ! (length xs - 2)"
  "length xs = 2 \<Longrightarrow> selectAmount xs = xs ! 1"
  "length xs = 2 \<Longrightarrow> selectAmount xs = last xs"
  "length xs = 1 \<Longrightarrow> selectAmount xs = xs ! 0"
  "xs = [] \<Longrightarrow> selectAmount xs = []"
  by (auto simp add: selectAmount_def length_Suc_conv numeral_2_eq_2)

lemma matchAll_empty: "matchAll1 False amountsRegex [] = []"
  by (simp add: run_rules)

lemma crdb_amount_any:
  "ParsedTransaction.amount (parseCRDBTransactionLine line) = selectAmount (matchAll1 False amountsRegex (js_trim line))"
  "ParsedTransaction_qb.amount (parseCRDBTransactionLine_qb line) = selectAmount (matchAll1 False amountsRegex (js_trim line))"
  by (cases "js_trim line = []";
      simp add: crdb_fields crdb_fields_qb blank_line createEmptyTransaction_def createEmptyTransaction_qb_def
        crdb_amount_def matchAll_empty selectAmount_cases)+

lemma in_set_amountChar: "in_set False [CDigit, CChar CHR '',''] c = (isDigit c \<or> c = CHR '','')"
  by (simp add: in_set_def)

lemma in_set_dot: "in_set False [CChar CHR ''.''] c = (c = CHR ''.'')"
  by (simp add: in_set_def)

lemma in_set_digit: "in_set False [CDigit] c = isDigit c"
  by (simp add: in_set_def)

lemma dot_not_amountChar: "\<not> isDigit CHR ''.''" "CHR ''.'' \<noteq> CHR '',''"
  by (simp_all add: char_ev)

text \<open>
  A greedy star over a class, before a continuation that fails on every input that starts
  with a character of the class, takes the whole run of such characters.
\<close>

lemma star_class_run:
  assumes K: "\<And>p c s cp. in_set ic cs c \<Longrightarrow> K (MState p (c # s) cp) = None"
  shows "rx_match ic (Star (One cs)) K (MState p s cp) =
     K (MState (if takeWhile (in_set ic cs) s = [] then p else Some (last (takeWhile (in_set ic cs) s)))
          (dropWhile (in_set ic cs) s) cp)"
proof (induction s arbitrary: p)
  case Nil
  show ?case by (simp add: ev_Star_One)
next
  case (Cons c s)
  show ?case
  proof (cases "in_set ic cs c")
    case False
    then show ?thesis by (simp add: ev_Star_One star_step_simps)
  next
    case True
    have "rx_match ic (Star (One cs)) K (MState p (c # s) cp) =
          orelse (rx_match ic (Star (One cs)) K (MState (Some c) s cp)) None"
      using True K[OF True, of p s cp] by (simp add: ev_Star_One star_step_simps)
    also have "\<dots> = rx_match ic (Star (One cs)) K (MState (Some c) s cp)"
      by (simp add: orelse_def split: option.splits)
    also have "\<dots> = K (MState (if takeWhile (in_set ic cs) s = [] then Some c
                                    else Some (last (takeWhile (in_set ic cs) s)))
                             (dropWhile (in_set ic cs) s) cp)"
      by (rule Cons)
    finally show ?thesis using True by simp
  qed
qed

lemma after_run:
  "rx_match False (Seq (Chr CHR ''.'') (Seq (Times 2 digit) Eps)) (close_group Some s0) (MState p r cp) =
     (case r of
        c0 # d1 # d2 # v \<Rightarrow>
          if c0 = CHR ''.'' \<and> isDigit d1 \<and> isDigit d2 then Some (MState (Some d2) v (Some (s0, v))) else None
      | _ \<Rightarrow> None)"
  by (simp add: rx_core ev_Seq ev_One ev_Eps one_step_def close_group_MState in_set_dot in_set_digit
        split: list.splits)

lemma amountsRegex_match:
  "rx_match False amountsRegex Some (MState p s None) =
     (if takeWhile (\<lambda>c. isDigit c \<or> c = CHR '','') s = [] then None
      else (case dropWhile (\<lambda>c. isDigit c \<or> c = CHR '','') s of
              c0 # d1 # d2 # v \<Rightarrow>
                if c0 = CHR ''.'' \<and> isDigit d1 \<and> isDigit d2 then Some (MState (Some d2) v (Some (s, v))) else None
            | _ \<Rightarrow> None))"
proof -
  let ?A = "[CDigit, CChar CHR '','']"
  let ?K = "\<lambda>s0. rx_match False (Seq (Chr CHR ''.'') (Seq (Times 2 digit) Eps)) (close_group Some s0)"
  have K: "?K s0 (MState p (c # s') cp) = None" if "in_set False ?A c" for p c s' cp s0
    using that dot_not_amountChar by (auto simp add: after_run in_set_amountChar split: list.splits)
  have A: "in_set False ?A = (\<lambda>c. isDigit c \<or> c = CHR '','')"
    by (rule ext) (rule in_set_amountChar)
  have star: "rx_match False (Star (One ?A)) (?K s0) (MState p' s' None) =
     ?K s0 (MState (if takeWhile (\<lambda>c. isDigit c \<or> c = CHR '','') s' = [] then p'
                    else Some (last (takeWhile (\<lambda>c. isDigit c \<or> c = CHR '','') s')))
          (dropWhile (\<lambda>c. isDigit c \<or> c = CHR '','') s') None)" for p' s' s0
    using star_class_run[of False ?A "?K s0" p' s' None, OF K] unfolding A by simp
  have unf: "rx_match False amountsRegex Some (MState p s None) =
             rx_match False (One ?A) (rx_match False (Star (One ?A)) (?K s)) (MState p s None)"
    by (simp add: amountsRegex_def Plus_def ev_Group ev_Seq)
  show ?thesis
    unfolding unf
    by (cases s; hypsubst) (simp_all add: ev_One one_step_def star after_run in_set_amountChar)
qed

lemma amountsRegex_found:
  assumes "run \<noteq> []" "\<forall>c\<in>set run. isDigit c \<or> c = CHR '',''" "isDigit d1" "isDigit d2"
  shows "rx_match False amountsRegex Some (MState p (run @ CHR ''.'' # d1 # d2 # v) None) =
         Some (MState (Some d2) v (Some (run @ CHR ''.'' # d1 # d2 # v, v)))"
proof -
  have t: "takeWhile (\<lambda>c. isDigit c \<or> c = CHR '','') (run @ CHR ''.'' # d1 # d2 # v) = run"
    using assms(2) dot_not_amountChar by (simp add: takeWhile_append2)
  have d: "dropWhile (\<lambda>c. isDigit c \<or> c = CHR '','') (run @ CHR ''.'' # d1 # d2 # v) = CHR ''.'' # d1 # d2 # v"
    using assms(2) dot_not_amountChar by (simp add: dropWhile_append2)
  show ?thesis unfolding amountsRegex_match t d using assms by simp
qed

lemma amountsRegex_only:
  assumes "rx_match False amountsRegex Some (MState p s None) = Some st"
  shows "\<exists>run d1 d2 v. s = run @ CHR ''.'' # d1 # d2 # v \<and> run \<noteq> [] \<and>
           (\<forall>c\<in>set run. isDigit c \<or> c = CHR '','') \<and> isDigit d1 \<and> isDigit d2"
proof -
  let ?P = "\<lambda>c. isDigit c \<or> c = CHR '',''"
  from assms have ne: "takeWhile ?P s \<noteq> []"
    unfolding amountsRegex_match by (simp split: if_splits)
  from assms obtain d1 d2 v where d: "dropWhile ?P s = CHR ''.'' # d1 # d2 # v" "isDigit d1" "isDigit d2"
    unfolding amountsRegex_match by (auto split: if_splits list.splits)
  have "s = takeWhile ?P s @ CHR ''.'' # d1 # d2 # v"
    using takeWhile_dropWhile_id[of ?P s] d(1) by simp
  moreover have "\<forall>c\<in>set (takeWhile ?P s). ?P c"
    by (auto dest: set_takeWhileD)
  ultimately show ?thesis using ne d(2,3) by blast
qed

lemma matchAll_amounts_prev:
  "matchAll_from False amountsRegex p s = matchAll_from False amountsRegex p' s"
  by (simp only: ev_matchAll_from amountsRegex_match)


lemma matchAll_amounts_found:
  assumes "run \<noteq> []" "\<forall>c\<in>set run. isDigit c \<or> c = CHR '',''" "isDigit d1" "isDigit d2"
  shows "matchAll1 False amountsRegex (run @ CHR ''.'' # d1 # d2 # v) =
         (run @ [CHR ''.'', d1, d2]) # matchAll1 False amountsRegex v"
proof -
  have "matchAll_from False amountsRegex None (run @ CHR ''.'' # d1 # d2 # v) =
        (run @ [CHR ''.'', d1, d2]) # matchAll_from False amountsRegex (Some d2) v"
    unfolding ev_matchAll_from[of _ _ _ "run @ CHR ''.'' # d1 # d2 # v"] amountsRegex_found[OF assms]
    by (simp add: ev_matchAll group1_def)
  then show ?thesis
    unfolding matchAll1_def using matchAll_amounts_prev[of "Some d2" v None] by simp
qed

lemma matchAll_amounts_skip:
  assumes "\<forall>run d1 d2 v. run \<noteq> [] \<and> (\<forall>x\<in>set run. isDigit x \<or> x = CHR '','') \<and> isDigit d1 \<and> isDigit d2
             \<longrightarrow> c # s \<noteq> run @ CHR ''.'' # d1 # d2 # v"
  shows "matchAll1 False amountsRegex (c # s) = matchAll1 False amountsRegex s"
proof -
  have "rx_match False amountsRegex Some (MState None (c # s) None) = None"
  proof (cases "rx_match False amountsRegex Some (MState None (c # s) None)")
    case None then show ?thesis .
  next
    case (Some st)
    from amountsRegex_only[OF Some] assms show ?thesis by blast
  qed
  then have "matchAll_from False amountsRegex None (c # s) = matchAll_from False amountsRegex (Some c) s"
    unfolding ev_matchAll_from[of _ _ _ "c # s"] by (simp add: ev_matchAll)
  then show ?thesis
    unfolding matchAll1_def using matchAll_amounts_prev[of "Some c" s None] by simp
qed

lemma no_number_at:
  "\<not> isDigit c \<Longrightarrow> c \<noteq> CHR '','' \<Longrightarrow>
   \<forall>run d1 d2 v. run \<noteq> [] \<and> (\<forall>x\<in>set run. isDigit x \<or> x = CHR '','') \<and> isDigit d1 \<and> isDigit d2
      \<longrightarrow> c # s \<noteq> run @ CHR ''.'' # d1 # d2 # v"
  by (auto simp add: Cons_eq_append_conv)

text \<open>
  C1. For every line, the amount of the CRDB extractor (in both versions) is chosen among
  the numbers that \<open>/([\d,]+\.\d{2})/g\<close> collects in the trimmed line. The collection
  goes through the line from left to right: where a number starts (a run of digits and
  commas that is not empty, a dot and two digits), the number is collected and the
  collection goes on after it; anywhere else it goes on one character further; at the end
  of the line it stops. So the list holds every such number of the line, in the order of
  the line, none of them overlapping another. With three or more numbers the amount is
  the last but one, with two it is the last, with one it is that one, with none it is
  empty. For the lists \<open>[0.00, 12500.00, 3826000.00]\<close>, \<open>[0.00, 12500.00]\<close> and
  \<open>[12500.00]\<close> the amount chosen is \<open>12500.00\<close>.
\<close>

theorem crdb_amount_selection:
  "ParsedTransaction.amount (parseCRDBTransactionLine line) = selectAmount (matchAll1 False amountsRegex (js_trim line)) \<and>
   ParsedTransaction_qb.amount (parseCRDBTransactionLine_qb line) = selectAmount (matchAll1 False amountsRegex (js_trim line)) \<and>
   matchAll1 False amountsRegex [] = [] \<and>
   (run \<noteq> [] \<and> (\<forall>x\<in>set run. isDigit x \<or> x = CHR '','') \<and> isDigit d1 \<and> isDigit d2 \<longrightarrow>
      matchAll1 False amountsRegex (run @ CHR ''.'' # d1 # d2 # v) =
        (run @ [CHR ''.'', d1, d2]) # matchAll1 False amountsRegex v) \<and>
   ((\<forall>run d1 d2 v. run \<noteq> [] \<and> (\<forall>x\<in>set run. isDigit x \<or> x = CHR '','') \<and> isDigit d1 \<and> isDigit d2
        \<longrightarrow> c # s \<noteq> run @ CHR ''.'' # d1 # d2 # v) \<longrightarrow>
      matchAll1 False amountsRegex (c # s) = matchAll1 False amountsRegex s) \<and>
   (3 \<le> length allAmounts \<longrightarrow> selectAmount allAmounts = allAmounts ! (length allAmounts - 2)) \<and>
   (length allAmounts = 2 \<longrightarrow> selectAmount allAmounts = allAmounts ! 1 \<and> selectAmount allAmounts = last allAmounts) \<and>
   (length allAmounts = 1 \<longrightarrow> selectAmount allAmounts = allAmounts ! 0) \<and>
   (allAmounts = [] \<longrightarrow> selectAmount allAmounts = []) \<and>
   selectAmount [''0.00'', ''12500.00'', ''3826000.00''] = ''12500.00'' \<and>
   selectAmount [''0.00'', ''12500.00''] = ''12500.00'' \<and>
   selectAmount [''12500.00''] = ''12500.00''"
proof -
  have found: "run \<noteq> [] \<and> (\<forall>x\<in>set run. isDigit x \<or> x = CHR '','') \<and> isDigit d1 \<and> isDigit d2 \<longrightarrow>
      matchAll1 False amountsRegex (run @ CHR ''.'' # d1 # d2 # v) =
        (run @ [CHR ''.'', d1, d2]) # matchAll1 False amountsRegex v"
    using matchAll_amounts_found[of run d1 d2 v] by blast
  have skip: "(\<forall>run d1 d2 v. run \<noteq> [] \<and> (\<forall>x\<in>set run. isDigit x \<or> x = CHR '','') \<and> isDigit d1 \<and> isDigit d2
        \<longrightarrow> c # s \<noteq> run @ CHR ''.'' # d1 # d2 # v) \<longrightarrow>
      matchAll1 False amountsRegex (c # s) = matchAll1 False amountsRegex s"
    using matchAll_amounts_skip[of c s] by blast
  have sel: "(3 \<le> length allAmounts \<longrightarrow> selectAmount allAmounts = allAmounts ! (length allAmounts - 2)) \<and>
   (length allAmounts = 2 \<longrightarrow> selectAmount allAmounts = allAmounts ! 1 \<and> selectAmount allAmounts = last allAmounts) \<and>
   (length allAmounts = 1 \<longrightarrow> selectAmount allAmounts = allAmounts ! 0) \<and>
   (allAmounts = [] \<longrightarrow> selectAmount allAmounts = [])"
    using selectAmount_cases[of allAmounts] by simp
  have ex: "selectAmount [''0.00'', ''12500.00'', ''3826000.00''] = ''12500.00'' \<and>
   selectAmount [''0.00'', ''12500.00''] = ''12500.00'' \<and>
   selectAmount [''12500.00''] = ''12500.00''"
    by (simp add: selectAmount_def)
  from crdb_amount_any[of line] matchAll_empty found skip sel ex show ?thesis
    by (elim conjE) (intro conjI; assumption)
qed

lemma trim_amounts:
  "js_trim ''19.01.2026 REF:ab1 0.00 12,500.00 437,129,784.78'' = ''19.01.2026 REF:ab1 0.00 12,500.00 437,129,784.78''"
  by (simp add: js_trim_def char_ev)

lemma run_amounts:
  "matchAll1 False amountsRegex ''19.01.2026 REF:ab1 0.00 12,500.00 437,129,784.78''
     = [''19.01'', ''0.00'', ''12,500.00'', ''437,129,784.78'']"
  by (simp add: run_rules)

lemma digit_0: "isDigit CHR ''0''"
  by (simp add: char_ev)

lemma no_number_at_space:
  "\<forall>run d1 d2 v. run \<noteq> [] \<and> (\<forall>x\<in>set run. isDigit x \<or> x = CHR '','') \<and> isDigit d1 \<and> isDigit d2
      \<longrightarrow> CHR '' '' # s \<noteq> run @ CHR ''.'' # d1 # d2 # v"
  by (rule no_number_at) (simp_all add: char_ev)

text \<open>
  The witness: a line with a date, a reference and three amounts. The first two digits
  and the next two of the date make a number of the shape, which is collected first. The
  number \<open>0.00\<close> is collected where it starts, and the space after it is passed over.
\<close>

theorem crdb_amount_selection_witness:
  "matchAll1 False amountsRegex (js_trim ''19.01.2026 REF:ab1 0.00 12,500.00 437,129,784.78'')
     = [''19.01'', ''0.00'', ''12,500.00'', ''437,129,784.78''] \<and>
   ParsedTransaction.amount (parseCRDBTransactionLine ''19.01.2026 REF:ab1 0.00 12,500.00 437,129,784.78'') = ''12,500.00'' \<and>
   ParsedTransaction_qb.amount (parseCRDBTransactionLine_qb ''19.01.2026 REF:ab1 0.00 12,500.00 437,129,784.78'') = ''12,500.00'' \<and>
   matchAll1 False amountsRegex ''0.00 12,500.00 437,129,784.78''
     = ''0.00'' # matchAll1 False amountsRegex '' 12,500.00 437,129,784.78'' \<and>
   matchAll1 False amountsRegex '' 12,500.00 437,129,784.78'' = matchAll1 False amountsRegex ''12,500.00 437,129,784.78''"
  using crdb_amount_selection[where line = "''19.01.2026 REF:ab1 0.00 12,500.00 437,129,784.78''"
      and allAmounts = "[''19.01'', ''0.00'', ''12,500.00'', ''437,129,784.78'']"
      and run = "''0''" and ?d1.0 = "CHR ''0''" and ?d2.0 = "CHR ''0''" and v = "'' 12,500.00 437,129,784.78''"
      and c = "CHR '' ''" and s = "''12,500.00 437,129,784.78''"]
    no_number_at_space[of "''12,500.00 437,129,784.78''"]
  by (simp add: trim_amounts run_amounts digit_0)

section \<open>The NMB sample line\<close>

lemma last_ev: "last [x] = x" "last (x # y # zs) = last (y # zs)"
  by simp_all

lemma js_trim_id: "\<not> isWhiteSpace c \<Longrightarrow> \<not> isWhiteSpace (last (c # s)) \<Longrightarrow> js_trim (c # s) = c # s"
proof -
  assume a: "\<not> isWhiteSpace c" and b: "\<not> isWhiteSpace (last (c # s))"
  have "rev (c # s) = last (c # s) # rev (butlast (c # s))"
    by (metis append_butlast_last_id list.distinct(1) rev.simps(2) rev_append rev_singleton_conv append_Nil rev_rev_ident)
  then have "dropWhile isWhiteSpace (rev (c # s)) = rev (c # s)" using b by simp
  then show ?thesis using a by (simp add: js_trim_def)
qed

lemma in_set_tab: "in_set True [CChar (CHR 0x09)] c = (c = CHR 0x09)"
  by (cases c) (auto simp add: char_ev)

lemma search_no_tab:
  "CHR 0x09 \<notin> set s \<Longrightarrow> rx_search True (Seq (One [CChar (CHR 0x09)]) r) p s = None"
proof (induction s arbitrary: p)
  case Nil
  then show ?case by (simp add: ev_search ev_Seq ev_One)
next
  case (Cons c s)
  then have "(c = CHR 0x09) = False" and "CHR 0x09 \<notin> set s" by auto
  then show ?case
    using Cons.IH by (simp add: ev_search ev_Seq ev_One in_set_tab one_step_simps search_step_simps)
qed

lemma nmb_userId_of_match:
  "match1 False userIdPattern l = Some g \<Longrightarrow> g \<noteq> [] \<Longrightarrow> nmb_userId l = g"
  by (simp add: nmb_userId_def Let_def)

lemma sample_trim: "js_trim nmbSample = nmbSample"
  by (simp add: nmbSample_def js_trim_id last_ev char_ev del: last.simps)
lemma sample_no_tab: "CHR 0x09 \<notin> set nmbSample"
  by (simp add: nmbSample_def)
lemma sample_date: "nmb_transactionDate nmbSample = ''20 Jan 2026''"
  by (simp add: nmbSample_def nmb_transactionDate_def js_trim_def pattern_defs rx_core rx_ev char_ev)
lemma sample_refId: "nmb_refId nmbSample = ''963330000141''"
  by (simp add: nmbSample_def nmb_refId_def pattern_defs rx_core rx_ev char_ev)
lemma sample_userId_match: "match1 False userIdPattern nmbSample = Some ''22410063786''"
  by (simp add: nmbSample_def pattern_defs rx_core rx_ev char_ev)
lemma sample_deposit: "match1 False depositPattern nmbSample = Some ''12500.00''"
  by (simp add: nmbSample_def pattern_defs rx_core rx_ev char_ev)
lemma sample_tab_patterns:
  "match1 True amountPattern nmbSample = None"
  "match1 True altAmountPattern nmbSample = None"
  unfolding match1_def amountPattern_def altAmountPattern_def Seqs.simps tab_def Chr_def
  by (simp_all add: search_no_tab[OF sample_no_tab])

lemma sample_amount: "nmb_amount nmbSample = ''12500.00''"
  by (simp add: nmb_amount_def sample_tab_patterns sample_deposit)
lemma sample_nonempty: "nmbSample \<noteq> []"
  by (simp add: nmbSample_def)

text \<open>
  C9. On the NMB sample line the NMB extractor finds the reference id \<open>963330000141\<close>,
  the user id \<open>22410063786\<close>, the amount \<open>12500.00\<close> and the date \<open>20 Jan 2026\<close>. The
  line has no tab, so the amount comes from the third pattern. In the QuickBooks version
  the user id is the reference memo.
\<close>

theorem nmb_sample_line:
  "refId (parseTransactionLine nmbSample) = ''963330000141'' \<and>
   userId (parseTransactionLine nmbSample) = ''22410063786'' \<and>
   ParsedTransaction.amount (parseTransactionLine nmbSample) = ''12500.00'' \<and>
   transactionDate (parseTransactionLine nmbSample) = ''20 Jan 2026'' \<and>
   isValid (parseTransactionLine nmbSample) \<and>
   invoiceNo (parseTransactionLine_qb nmbSample) = ''963330000141'' \<and>
   referenceMemo (parseTransactionLine_qb nmbSample) = ''22410063786'' \<and>
   ParsedTransaction_qb.amount (parseTransactionLine_qb nmbSample) = ''12500.00'' \<and>
   paymentDate (parseTransactionLine_qb nmbSample) = ''20 Jan 2026'' \<and>
   ParsedTransaction_qb.isValid (parseTransactionLine_qb nmbSample)"
  using nmb_userId_of_match[OF sample_userId_match]
  by (simp add: nmb_fields nmb_fields_qb sample_trim sample_nonempty sample_date sample_refId sample_amount)


section \<open>How the database service runs\<close>

declare check_loop.simps [simp del] insert_loop.simps [simp del]

text \<open>The number of chunks of size \<open>c\<close> from position \<open>i\<close> on.\<close>

lemma chunks_left:
  fixes i n c :: nat
  assumes "0 < c" "i < n"
  shows "(n - i + (c - 1)) div c = Suc ((n - (i + c) + (c - 1)) div c)"
proof (cases "i + c \<le> n")
  case True
  then have "n - i + (c - 1) = (n - (i + c) + (c - 1)) + c" by linarith
  then have "(n - i + (c - 1)) div c = ((n - (i + c) + (c - 1)) + c) div c" by (rule arg_cong)
  also have "\<dots> = (n - (i + c) + (c - 1)) div c + 1" using assms(1) by (simp only: div_add_self2)
  finally show ?thesis by (simp only: Suc_eq_plus1)
next
  case False
  with assms have a: "c * 1 \<le> n - i + (c - 1)" and b: "n - i + (c - 1) < c * Suc 1" by simp_all
  from False have z: "n - (i + c) = 0" by simp
  have "(c - 1) div c = 0" using assms(1) by (intro div_less) simp
  then have r: "(n - (i + c) + (c - 1)) div c = 0" unfolding z by (simp only: add_0)
  have "(n - i + (c - 1)) div c = 1" using a b by (rule div_nat_eqI)
  then show ?thesis unfolding r by (simp only: One_nat_def)
qed

lemma chunks_none:
  fixes i n c :: nat
  assumes "0 < c"
  shows "((n - i + (c - 1)) div c = 0) = (n \<le> i)"
proof (cases "n \<le> i")
  case True
  then have z: "n - i = 0" by simp
  have "(c - 1) div c = 0" using assms by (intro div_less) simp
  then have "(n - i + (c - 1)) div c = 0" unfolding z by (simp only: add_0)
  with True show ?thesis by (simp only: simp_thms)
next
  case False
  then have "i < n" by simp
  from chunks_left[OF assms this] False show ?thesis by (simp only: nat.distinct simp_thms)
qed

lemma chunkSize_pos: "0 < chunkSize" by (simp add: chunkSize_def)
lemma batchSize_pos: "0 < batchSize" by (simp add: batchSize_def)

lemma map_upt_shift: "map f [0..<Suc k] = f 0 # map (\<lambda>j. f (Suc j)) [0..<k]"
  by (simp add: map_upt_Suc del: upt_Suc)

text \<open>The calls to the store, by the reply they get.\<close>

lemma select_in_Accept:
  "replies w = Accept u # rs \<Longrightarrow>
   select_in name col chunk w =
     (Inr (map col (filter (\<lambda>row. col row \<in> set chunk) (parsed_transactions w))),
      w\<lparr>requests := requests w @ [SelectIn name chunk], replies := rs\<rparr>)"
  by (simp add: select_in_def next_reply_def)

lemma select_in_Reject:
  "replies w = Reject e # rs \<Longrightarrow>
   select_in name col chunk w = (Inl e, w\<lparr>requests := requests w @ [SelectIn name chunk], replies := rs\<rparr>)"
  by (simp add: select_in_def next_reply_def)

text \<open>
  The loop of the existence queries: when all the queries are accepted it returns the keys
  found in the store; a rejected query ends it with the error of the store.
\<close>

lemma check_loop_accepted:
  "replies w = map Accept us @ script \<Longrightarrow>
   length us = (length ids - i + (chunkSize - 1)) div chunkSize \<Longrightarrow>
   check_loop name col ids i S w =
     (Inr (S \<union> (set (drop i ids) \<inter> col ` set (parsed_transactions w))),
      w\<lparr>requests := requests w @
           map (\<lambda>j. SelectIn name (slice (i + j * chunkSize) (i + j * chunkSize + chunkSize) ids)) [0..<length us],
        replies := script\<rparr>)"
proof (induction us arbitrary: i S w)
  case Nil
  from Nil.prems(2) have "(length ids - i + (chunkSize - 1)) div chunkSize = 0" by (metis list.size(3))
  then have "length ids \<le> i" by (simp only: chunks_none[OF chunkSize_pos])
  with Nil show ?case by (subst check_loop.simps) simp
next
  case (Cons u us)
  have lt: "i < length ids"
  proof (rule ccontr)
    assume "\<not> i < length ids"
    then have "length ids \<le> i" by simp
    then have "(length ids - i + (chunkSize - 1)) div chunkSize = 0" by (simp only: chunks_none[OF chunkSize_pos])
    with Cons.prems(2) show False by simp
  qed
  let ?chunk = "slice i (i + chunkSize) ids"
  let ?w1 = "w\<lparr>requests := requests w @ [SelectIn name ?chunk], replies := map Accept us @ script\<rparr>"
  let ?data = "map col (filter (\<lambda>row. col row \<in> set ?chunk) (parsed_transactions w))"
  have sel: "select_in name col ?chunk w = (Inr ?data, ?w1)"
    using Cons.prems(1) by (simp add: select_in_Accept)
  have len: "length us = (length ids - (i + chunkSize) + (chunkSize - 1)) div chunkSize"
  proof -
    from Cons.prems(2) have "Suc (length us) = (length ids - i + (chunkSize - 1)) div chunkSize" by (metis length_Cons)
    then have "Suc (length us) = Suc ((length ids - (i + chunkSize) + (chunkSize - 1)) div chunkSize)"
      by (simp only: chunks_left[OF chunkSize_pos lt])
    then show ?thesis by (simp only: nat.inject)
  qed
  have IH: "check_loop name col ids (i + chunkSize) S' ?w1 =
     (Inr (S' \<union> (set (drop (i + chunkSize) ids) \<inter> col ` set (parsed_transactions ?w1))),
      ?w1\<lparr>requests := requests ?w1 @
            map (\<lambda>j. SelectIn name (slice (i + chunkSize + j * chunkSize) (i + chunkSize + j * chunkSize + chunkSize) ids))
              [0..<length us],
        replies := script\<rparr>)" for S'
    by (rule Cons.IH) (simp_all add: len)
  have step: "check_loop name col ids i S w = check_loop name col ids (i + chunkSize) (S \<union> set ?data) ?w1"
    by (subst check_loop.simps) (simp only: lt if_True Let_def sel prod.case sum.case)
  have sets: "set (drop i ids) = set (take chunkSize (drop i ids)) \<union> set (drop (i + chunkSize) ids)"
    by (metis add.commute append_take_drop_id drop_drop set_append)
  have S: "S \<union> set ?data \<union> (set (drop (i + chunkSize) ids) \<inter> col ` set (parsed_transactions ?w1)) =
           S \<union> (set (drop i ids) \<inter> col ` set (parsed_transactions w))"
    unfolding sets by (auto simp add: slice_def)
  have R: "requests ?w1 @
             map (\<lambda>j. SelectIn name (slice (i + chunkSize + j * chunkSize) (i + chunkSize + j * chunkSize + chunkSize) ids))
               [0..<length us] =
           requests w @
             map (\<lambda>j. SelectIn name (slice (i + j * chunkSize) (i + j * chunkSize + chunkSize) ids)) [0..<length (u # us)]"
    by (simp add: map_upt_shift add.assoc del: upt_Suc)
  show ?case
    unfolding step IH S R by simp
qed

lemma check_loop_rejected:
  "replies w = map Accept us @ Reject err # script \<Longrightarrow>
   i + length us * chunkSize < length ids \<Longrightarrow>
   check_loop name col ids i S w =
     (Inl err,
      w\<lparr>requests := requests w @
           map (\<lambda>j. SelectIn name (slice (i + j * chunkSize) (i + j * chunkSize + chunkSize) ids)) [0..<Suc (length us)],
        replies := script\<rparr>)"
proof (induction us arbitrary: i S w)
  case Nil
  then have lt: "i < length ids" by simp
  let ?chunk = "slice i (i + chunkSize) ids"
  have sel: "select_in name col ?chunk w =
      (Inl err, w\<lparr>requests := requests w @ [SelectIn name ?chunk], replies := script\<rparr>)"
    using Nil.prems(1) by (simp add: select_in_Reject)
  show ?case
    by (subst check_loop.simps) (simp add: lt Let_def sel)
next
  case (Cons u us)
  from Cons.prems(2) have lt: "i < length ids" by simp
  from Cons.prems(2) have lt': "i + chunkSize + length us * chunkSize < length ids" by (simp add: add.assoc)
  let ?chunk = "slice i (i + chunkSize) ids"
  let ?w1 = "w\<lparr>requests := requests w @ [SelectIn name ?chunk], replies := map Accept us @ Reject err # script\<rparr>"
  let ?data = "map col (filter (\<lambda>row. col row \<in> set ?chunk) (parsed_transactions w))"
  have sel: "select_in name col ?chunk w = (Inr ?data, ?w1)"
    using Cons.prems(1) by (simp add: select_in_Accept)
  have IH: "check_loop name col ids (i + chunkSize) S' ?w1 =
     (Inl err,
      ?w1\<lparr>requests := requests ?w1 @
            map (\<lambda>j. SelectIn name (slice (i + chunkSize + j * chunkSize) (i + chunkSize + j * chunkSize + chunkSize) ids))
              [0..<Suc (length us)],
        replies := script\<rparr>)" for S'
    by (rule Cons.IH) (simp_all add: lt')
  have step: "check_loop name col ids i S w = check_loop name col ids (i + chunkSize) (S \<union> set ?data) ?w1"
    by (subst check_loop.simps) (simp only: lt if_True Let_def sel prod.case sum.case)
  have R: "requests ?w1 @
             map (\<lambda>j. SelectIn name (slice (i + chunkSize + j * chunkSize) (i + chunkSize + j * chunkSize + chunkSize) ids))
               [0..<Suc (length us)] =
           requests w @
             map (\<lambda>j. SelectIn name (slice (i + j * chunkSize) (i + j * chunkSize + chunkSize) ids))
               [0..<Suc (length (u # us))]"
    by (simp add: map_upt_shift[of _ "Suc (length us)"] add.assoc del: upt_Suc)
  show ?case
    unfolding step IH R by simp
qed

lemma reply_at_tl: "reply_at (tl rs) j = reply_at rs (Suc j)"
  by (cases rs) (simp_all add: reply_at_def)

text \<open>
  The loop of the inserts: every chunk is offered to the store; the chunks that the store
  accepts are appended to the table, the errors of the others are logged.
\<close>

lemma insert_rows_eq:
  "insert_rows chunk w =
     (case reply_at (replies w) 0 of
        Reject e \<Rightarrow> (Some e, w\<lparr>requests := requests w @ [InsertRows chunk], replies := tl (replies w)\<rparr>)
      | Accept u \<Rightarrow> (None, w\<lparr>requests := requests w @ [InsertRows chunk], replies := tl (replies w),
                             parsed_transactions := parsed_transactions w @ chunk\<rparr>))"
  by (cases "replies w") (simp_all add: insert_rows_def next_reply_def reply_at_def split: reply.splits)

lemma insert_loop_effect:
  "n = (length allRows - i + (batchSize - 1)) div batchSize \<Longrightarrow>
   insert_loop allRows i w =
     w\<lparr>replies := drop n (replies w),
       requests := requests w @
         map (\<lambda>j. InsertRows (slice (i + j * batchSize) (i + j * batchSize + batchSize) allRows)) [0..<n],
       parsed_transactions := parsed_transactions w @
         concat (map (\<lambda>j. if rejected (reply_at (replies w) j) then []
                           else slice (i + j * batchSize) (i + j * batchSize + batchSize) allRows) [0..<n]),
       console_error := console_error w @
         concat (map (\<lambda>j. case reply_at (replies w) j of
                             Reject x \<Rightarrow> [(''Error saving transactions:'', x)]
                           | Accept u \<Rightarrow> []) [0..<n])\<rparr>"
proof (induction n arbitrary: i w)
  case 0
  then have "(length allRows - i + (batchSize - 1)) div batchSize = 0" by (simp only:)
  then have "length allRows \<le> i" by (simp only: chunks_none[OF batchSize_pos])
  then show ?case by (subst insert_loop.simps) simp
next
  case (Suc n)
  have lt: "i < length allRows"
  proof (rule ccontr)
    assume "\<not> i < length allRows"
    then have "length allRows \<le> i" by simp
    then have "(length allRows - i + (batchSize - 1)) div batchSize = 0" by (simp only: chunks_none[OF batchSize_pos])
    with Suc.prems show False by simp
  qed
  have len: "n = (length allRows - (i + batchSize) + (batchSize - 1)) div batchSize"
  proof -
    from Suc.prems have "Suc n = Suc ((length allRows - (i + batchSize) + (batchSize - 1)) div batchSize)"
      by (simp only: chunks_left[OF batchSize_pos lt])
    then show ?thesis by (simp only: nat.inject)
  qed
  let ?chunk = "slice i (i + batchSize) allRows"
  note IH = Suc.IH[OF len]
  have idx: "i + Suc j * batchSize = i + batchSize + j * batchSize" for j by simp
  show ?case
  proof (cases "reply_at (replies w) 0")
    case (Accept u)
    let ?w1 = "w\<lparr>requests := requests w @ [InsertRows ?chunk], replies := tl (replies w),
                 parsed_transactions := parsed_transactions w @ ?chunk\<rparr>"
    have step: "insert_loop allRows i w = insert_loop allRows (i + batchSize) ?w1"
      by (subst insert_loop.simps) (simp add: lt Let_def insert_rows_eq Accept)
    show ?thesis
      unfolding step IH[of ?w1] map_upt_shift idx
      by (simp add: Accept reply_at_tl drop_Suc del: upt_Suc)
  next
    case (Reject x)
    let ?w1 = "log_error ''Error saving transactions:'' x
                 (w\<lparr>requests := requests w @ [InsertRows ?chunk], replies := tl (replies w)\<rparr>)"
    have step: "insert_loop allRows i w = insert_loop allRows (i + batchSize) ?w1"
      by (subst insert_loop.simps) (simp add: lt Let_def insert_rows_eq Reject)
    show ?thesis
      unfolding step IH[of ?w1] map_upt_shift idx
      by (simp add: Reject reply_at_tl drop_Suc log_error_def del: upt_Suc)
  qed
qed

lemma concat_chunks_from:
  "n = (length xs - i + (c - 1)) div c \<Longrightarrow> 0 < c \<Longrightarrow>
   concat (map (\<lambda>j. slice (i + j * c) (i + j * c + c) xs) [0..<n]) = drop i xs"
proof (induction n arbitrary: i)
  case 0
  then have "(length xs - i + (c - 1)) div c = 0" by (simp only:)
  then have "length xs \<le> i" by (simp only: chunks_none[OF 0(2)])
  then show ?case by simp
next
  case (Suc n)
  have lt: "i < length xs"
  proof (rule ccontr)
    assume "\<not> i < length xs"
    then have "length xs \<le> i" by simp
    then have "(length xs - i + (c - 1)) div c = 0" by (simp only: chunks_none[OF Suc.prems(2)])
    with Suc.prems(1) show False by simp
  qed
  have len: "n = (length xs - (i + c) + (c - 1)) div c"
  proof -
    from Suc.prems(1) have "Suc n = Suc ((length xs - (i + c) + (c - 1)) div c)"
      by (simp only: chunks_left[OF Suc.prems(2) lt])
    then show ?thesis by (simp only: nat.inject)
  qed
  have idx: "i + Suc j * c = i + c + j * c" for j by simp
  have "concat (map (\<lambda>j. slice (i + c + j * c) (i + c + j * c + c) xs) [0..<n]) = drop (i + c) xs"
    by (rule Suc.IH[OF len Suc.prems(2)])
  then show ?case
    unfolding map_upt_shift idx
    by (simp add: slice_def) (metis add.commute append_take_drop_id drop_drop)
qed

lemma concat_chunks:
  "n = (length xs + (c - 1)) div c \<Longrightarrow> 0 < c \<Longrightarrow>
   concat (map (\<lambda>j. slice (j * c) (j * c + c) xs) [0..<n]) = xs"
  using concat_chunks_from[of n xs 0 c] by simp

lemma no_chunks: "(chunkSize - Suc 0) div chunkSize = 0" "(batchSize - Suc 0) div batchSize = 0"
  using chunkSize_pos batchSize_pos by simp_all

lemma record_unchanged: "w\<lparr>requests := requests w, replies := replies w\<rparr> = w"
  by simp

text \<open>\<open>checkExistingTransactions\<close> and \<open>saveBatchToDatabase\<close> of the 21-column version.\<close>

lemma checkExisting_unfold:
  "checkExistingTransactions ts bt w =
     (case (if filter (\<lambda>i. i \<noteq> []) (map (\<lambda>t. if bt = NMB then userId t else refId t) ts) \<noteq> []
            then check_loop (if bt = NMB then ''user_id'' else ''ref_id'')
                   (if bt = NMB then user_id else StoredTransaction.ref_id)
                   (filter (\<lambda>i. i \<noteq> []) (map (\<lambda>t. if bt = NMB then userId t else refId t) ts)) 0 {} w
            else (Inr {}, w)) of
        (Inr existingIds, w1) \<Rightarrow> ((existingIds, None), w1)
      | (Inl e, w1) \<Rightarrow> (({}, Some (catch_message e)), log_error ''Error checking duplicates:'' e w1))"
  by (cases bt) (simp_all add: checkExistingTransactions_def Let_def)

lemma checkExisting_accepted:
  assumes "keys = filter (\<lambda>i. i \<noteq> []) (map (\<lambda>t. if bt = NMB then userId t else refId t) ts)"
      and "replies w = map Accept us @ script"
      and "length us = (length keys + (chunkSize - 1)) div chunkSize"
  shows "checkExistingTransactions ts bt w =
     ((set keys \<inter> (if bt = NMB then user_id else StoredTransaction.ref_id) ` set (parsed_transactions w), None),
      w\<lparr>requests := requests w @
           map (\<lambda>j. SelectIn (if bt = NMB then ''user_id'' else ''ref_id'')
                      (slice (j * chunkSize) (j * chunkSize + chunkSize) keys)) [0..<length us],
        replies := script\<rparr>)"
proof (cases "keys = []")
  case True
  with assms(3) have "us = []" by (simp add: no_chunks)
  with assms(2) True show ?thesis
    unfolding checkExisting_unfold assms(1)[symmetric] by simp
next
  case False
  have loop: "check_loop name col keys 0 {} w =
     (Inr ({} \<union> (set (drop 0 keys) \<inter> col ` set (parsed_transactions w))),
      w\<lparr>requests := requests w @
           map (\<lambda>j. SelectIn name (slice (0 + j * chunkSize) (0 + j * chunkSize + chunkSize) keys)) [0..<length us],
        replies := script\<rparr>)" for name col
    by (rule check_loop_accepted) (simp_all add: assms(2,3))
  from False show ?thesis
    unfolding checkExisting_unfold assms(1)[symmetric] loop by simp
qed

lemma checkExisting_rejected:
  assumes "keys = filter (\<lambda>i. i \<noteq> []) (map (\<lambda>t. if bt = NMB then userId t else refId t) ts)"
      and "replies w = map Accept us @ Reject err # script"
      and "length us * chunkSize < length keys"
  shows "checkExistingTransactions ts bt w =
     (({}, Some (catch_message err)),
      w\<lparr>requests := requests w @
           map (\<lambda>j. SelectIn (if bt = NMB then ''user_id'' else ''ref_id'')
                      (slice (j * chunkSize) (j * chunkSize + chunkSize) keys)) [0..<Suc (length us)],
        replies := script,
        console_error := console_error w @ [(''Error checking duplicates:'', err)]\<rparr>)"
proof -
  from assms(3) have ne: "keys \<noteq> []" by auto
  have loop: "check_loop name col keys 0 {} w =
     (Inl err,
      w\<lparr>requests := requests w @
           map (\<lambda>j. SelectIn name (slice (0 + j * chunkSize) (0 + j * chunkSize + chunkSize) keys)) [0..<Suc (length us)],
        replies := script\<rparr>)" for name col
    by (rule check_loop_rejected) (simp_all add: assms(2,3))
  from ne show ?thesis
    unfolding checkExisting_unfold assms(1)[symmetric] loop by (simp add: log_error_def del: upt_Suc)
qed

lemma insert_loop_from_0:
  "n = (length allRows + (batchSize - 1)) div batchSize \<Longrightarrow>
   insert_loop allRows 0 w =
     w\<lparr>replies := drop n (replies w),
       requests := requests w @
         map (\<lambda>j. InsertRows (slice (j * batchSize) (j * batchSize + batchSize) allRows)) [0..<n],
       parsed_transactions := parsed_transactions w @
         concat (map (\<lambda>j. if rejected (reply_at (replies w) j) then []
                           else slice (j * batchSize) (j * batchSize + batchSize) allRows) [0..<n]),
       console_error := console_error w @
         concat (map (\<lambda>j. case reply_at (replies w) j of
                             Reject x \<Rightarrow> [(''Error saving transactions:'', x)]
                           | Accept u \<Rightarrow> []) [0..<n])\<rparr>"
  using insert_loop_effect[of n allRows 0 w] unfolding add_0 diff_zero .

lemma survivors:
  assumes "keys = filter (\<lambda>i. i \<noteq> []) (map key ts)"
  shows "filter (\<lambda>t. key t \<notin> set keys \<inter> C) ts = filter (\<lambda>t. key t = [] \<or> key t \<notin> C) ts"
  by (rule filter_cong) (auto simp add: assms)

lemma insert_batch_Accept:
  "replies w = Accept b # rs \<Longrightarrow>
   insert_batch row w =
     (Inr b, w\<lparr>requests := requests w @ [InsertBatch row], replies := rs,
              transaction_batches := transaction_batches w @ [row\<lparr>id := b\<rparr>]\<rparr>)"
  by (simp add: insert_batch_def next_reply_def)

lemma not_truthy_None: "\<not> truthy None"
  by (simp add: truthy_def)

lemma save_after_check:
  assumes "checkExistingTransactions (successful result) (bankType result) w = ((existing, checkError), w1)"
      and "toSave = filter (\<lambda>t. (if bankType result = NMB then userId t else refId t) \<notin> existing) (successful result)"
      and "\<not> truthy checkError"
  shows "saveBatchToDatabase e result batchName w =
     (if toSave = [] then (\<lparr>batchId = None, error = None, skippedCount = length (successful result)\<rparr>, w1)
      else
        (case insert_batch \<lparr>id = [], session_id = sessionId e,
                           batch_name = or_else batchName (defaultBatchName e),
                           total_lines = totalLines result, success_count = length toSave,
                           fail_count = failCount result,
                           total_amount = totalAmountOf e (map ParsedTransaction.amount toSave)\<rparr> w1 of
           (Inl batchError, w2) \<Rightarrow>
             (\<lparr>batchId = None, error = Some (message batchError), skippedCount = 0\<rparr>,
              log_error ''Error saving batch:'' batchError w2)
         | (Inr new_id, w2) \<Rightarrow>
             (\<lparr>batchId = Some new_id, error = None, skippedCount = length (successful result) - length toSave\<rparr>,
              insert_loop (map (savedRow new_id) toSave @ map (failedRow new_id) (failed result)) 0 w2)))"
proof -
  have f: "filter (\<lambda>t. if bankType result = NMB then userId t \<notin> existing else refId t \<notin> existing) (successful result) = toSave"
    unfolding assms(2) by (rule filter_cong) auto
  show ?thesis
    unfolding saveBatchToDatabase_def assms(1) prod.case Let_def f
    using assms(3) by simp
qed

lemma save_creates_batch:
  assumes keys: "keys = filter (\<lambda>i. i \<noteq> []) (map (\<lambda>t. if bankType result = NMB then userId t else refId t) (successful result))"
      and replies: "replies w = map Accept us @ Accept b # rs"
      and len: "length us = (length keys + (chunkSize - 1)) div chunkSize"
      and toSave: "toSave = filter (\<lambda>t. (if bankType result = NMB then userId t else refId t) = [] \<or>
                       (if bankType result = NMB then userId t else refId t) \<notin>
                         (if bankType result = NMB then user_id else StoredTransaction.ref_id) ` set (parsed_transactions w))
                     (successful result)"
      and ne: "toSave \<noteq> []"
      and allRows: "allRows = map (savedRow b) toSave @ map (failedRow b) (failed result)"
      and n: "n = (length allRows + (batchSize - 1)) div batchSize"
      and row: "row = \<lparr>id = [], session_id = sessionId e,
                           batch_name = or_else batchName (defaultBatchName e),
                           total_lines = totalLines result, success_count = length toSave,
                           fail_count = failCount result,
                           total_amount = totalAmountOf e (map ParsedTransaction.amount toSave)\<rparr>"
  shows "saveBatchToDatabase e result batchName w =
     (\<lparr>batchId = Some b, error = None, skippedCount = length (successful result) - length toSave\<rparr>,
      w\<lparr>replies := drop n rs,
        requests := requests w @
           map (\<lambda>j. SelectIn (if bankType result = NMB then ''user_id'' else ''ref_id'')
                      (slice (j * chunkSize) (j * chunkSize + chunkSize) keys)) [0..<length us] @
           [InsertBatch row] @
           map (\<lambda>j. InsertRows (slice (j * batchSize) (j * batchSize + batchSize) allRows)) [0..<n],
        transaction_batches := transaction_batches w @ [row\<lparr>id := b\<rparr>],
        parsed_transactions := parsed_transactions w @
           concat (map (\<lambda>j. if rejected (reply_at rs j) then []
                             else slice (j * batchSize) (j * batchSize + batchSize) allRows) [0..<n]),
        console_error := console_error w @
           concat (map (\<lambda>j. case reply_at rs j of
                               Reject x \<Rightarrow> [(''Error saving transactions:'', x)]
                             | Accept u \<Rightarrow> []) [0..<n])\<rparr>)"
proof -
  let ?key = "\<lambda>t. if bankType result = NMB then userId t else refId t"
  let ?C = "(if bankType result = NMB then user_id else StoredTransaction.ref_id) ` set (parsed_transactions w)"
  let ?w1 = "w\<lparr>requests := requests w @
           map (\<lambda>j. SelectIn (if bankType result = NMB then ''user_id'' else ''ref_id'')
                      (slice (j * chunkSize) (j * chunkSize + chunkSize) keys)) [0..<length us],
        replies := Accept b # rs\<rparr>"
  have chk: "checkExistingTransactions (successful result) (bankType result) w = ((set keys \<inter> ?C, None), ?w1)"
    by (rule checkExisting_accepted[OF keys _ len]) (simp add: replies)
  have ts: "toSave = filter (\<lambda>t. ?key t \<notin> set keys \<inter> ?C) (successful result)"
    unfolding toSave using survivors[of keys ?key "successful result" ?C, OF keys] by simp
  let ?w2 = "?w1\<lparr>requests := requests ?w1 @ [InsertBatch row], replies := rs,
              transaction_batches := transaction_batches ?w1 @ [row\<lparr>id := b\<rparr>]\<rparr>"
  have ib: "insert_batch row ?w1 = (Inr b, ?w2)"
    by (rule insert_batch_Accept) simp
  show ?thesis
    unfolding save_after_check[OF chk ts not_truthy_None] row[symmetric] ib
    using ne by (simp add: allRows[symmetric] insert_loop_from_0[OF n])
qed

lemma save_aborts:
  assumes keys: "keys = filter (\<lambda>i. i \<noteq> []) (map (\<lambda>t. if bankType result = NMB then userId t else refId t) (successful result))"
      and replies: "replies w = map Accept us @ Reject err # script"
      and issued: "length us * chunkSize < length keys"
      and msg: "catch_message err \<noteq> []"
  shows "saveBatchToDatabase e result batchName w =
     (\<lparr>batchId = None, error = Some (catch_message err), skippedCount = 0\<rparr>,
      w\<lparr>requests := requests w @
           map (\<lambda>j. SelectIn (if bankType result = NMB then ''user_id'' else ''ref_id'')
                      (slice (j * chunkSize) (j * chunkSize + chunkSize) keys)) [0..<Suc (length us)],
        replies := script,
        console_error := console_error w @ [(''Error checking duplicates:'', err)]\<rparr>)"
  unfolding saveBatchToDatabase_def checkExisting_rejected[OF keys replies issued] prod.case Let_def
  using msg by (simp add: truthy_def)

lemma save_skips_all:
  assumes keys: "keys = filter (\<lambda>i. i \<noteq> []) (map (\<lambda>t. if bankType result = NMB then userId t else refId t) (successful result))"
      and replies: "replies w = map Accept us @ script"
      and len: "length us = (length keys + (chunkSize - 1)) div chunkSize"
      and stored: "\<forall>t\<in>set (successful result).
                     (if bankType result = NMB then userId t else refId t) \<noteq> [] \<and>
                     (if bankType result = NMB then userId t else refId t) \<in>
                       (if bankType result = NMB then user_id else StoredTransaction.ref_id) ` set (parsed_transactions w)"
  shows "saveBatchToDatabase e result batchName w =
     (\<lparr>batchId = None, error = None, skippedCount = length (successful result)\<rparr>,
      w\<lparr>requests := requests w @
           map (\<lambda>j. SelectIn (if bankType result = NMB then ''user_id'' else ''ref_id'')
                      (slice (j * chunkSize) (j * chunkSize + chunkSize) keys)) [0..<length us],
        replies := script\<rparr>)"
proof -
  let ?key = "\<lambda>t. if bankType result = NMB then userId t else refId t"
  let ?C = "(if bankType result = NMB then user_id else StoredTransaction.ref_id) ` set (parsed_transactions w)"
  have chk: "checkExistingTransactions (successful result) (bankType result) w = ((set keys \<inter> ?C, None),
      w\<lparr>requests := requests w @
           map (\<lambda>j. SelectIn (if bankType result = NMB then ''user_id'' else ''ref_id'')
                      (slice (j * chunkSize) (j * chunkSize + chunkSize) keys)) [0..<length us],
        replies := script\<rparr>)"
    by (rule checkExisting_accepted[OF keys replies len])
  have "filter (\<lambda>t. ?key t \<notin> set keys \<inter> ?C) (successful result) = filter (\<lambda>t. ?key t = [] \<or> ?key t \<notin> ?C) (successful result)"
    using survivors[of keys ?key "successful result" ?C, OF keys] by simp
  also have "\<dots> = []" using stored by (simp add: filter_empty_conv)
  finally have ts: "[] = filter (\<lambda>t. ?key t \<notin> set keys \<inter> ?C) (successful result)" by simp
  show ?thesis
    unfolding save_after_check[OF chk ts not_truthy_None] by simp
qed

text \<open>The same for the QuickBooks version.\<close>

lemma checkExisting_qb_unfold:
  "checkExistingTransactions_qb ts bt w =
     (case (if filter (\<lambda>i. i \<noteq> []) (map invoiceNo ts) \<noteq> []
            then check_loop ''ref_id'' StoredTransaction.ref_id (filter (\<lambda>i. i \<noteq> []) (map invoiceNo ts)) 0 {} w
            else (Inr {}, w)) of
        (Inr existingIds, w1) \<Rightarrow> ((existingIds, None), w1)
      | (Inl e, w1) \<Rightarrow> (({}, Some (catch_message e)), log_error ''Error checking duplicates:'' e w1))"
  by (cases bt) (simp_all add: checkExistingTransactions_qb_def Let_def)

lemma checkExisting_qb_accepted:
  assumes "keys = filter (\<lambda>i. i \<noteq> []) (map invoiceNo ts)"
      and "replies w = map Accept us @ script"
      and "length us = (length keys + (chunkSize - 1)) div chunkSize"
  shows "checkExistingTransactions_qb ts bt w =
     ((set keys \<inter> StoredTransaction.ref_id ` set (parsed_transactions w), None),
      w\<lparr>requests := requests w @
           map (\<lambda>j. SelectIn ''ref_id'' (slice (j * chunkSize) (j * chunkSize + chunkSize) keys)) [0..<length us],
        replies := script\<rparr>)"
proof (cases "keys = []")
  case True
  with assms(3) have "us = []" by (simp add: no_chunks)
  with assms(2) True show ?thesis
    unfolding checkExisting_qb_unfold assms(1)[symmetric] by simp
next
  case False
  have loop: "check_loop name col keys 0 {} w =
     (Inr ({} \<union> (set (drop 0 keys) \<inter> col ` set (parsed_transactions w))),
      w\<lparr>requests := requests w @
           map (\<lambda>j. SelectIn name (slice (0 + j * chunkSize) (0 + j * chunkSize + chunkSize) keys)) [0..<length us],
        replies := script\<rparr>)" for name col
    by (rule check_loop_accepted) (simp_all add: assms(2,3))
  from False show ?thesis
    unfolding checkExisting_qb_unfold assms(1)[symmetric] loop by simp
qed

lemma save_after_check_qb:
  assumes "checkExistingTransactions_qb (successful result) (bankType result) w = ((existing, checkError), w1)"
      and "toSave = filter (\<lambda>t. invoiceNo t \<notin> existing) (successful result)"
      and "\<not> truthy checkError"
  shows "saveBatchToDatabase_qb e result batchName w =
     (if toSave = [] then (\<lparr>batchId = None, error = None, skippedCount = length (successful result)\<rparr>, w1)
      else
        (case insert_batch \<lparr>id = [], session_id = sessionId e,
                           batch_name = or_else batchName (defaultBatchName e),
                           total_lines = totalLines result, success_count = length toSave,
                           fail_count = failCount result,
                           total_amount = totalAmountOf e (map ParsedTransaction_qb.amount toSave)\<rparr> w1 of
           (Inl batchError, w2) \<Rightarrow>
             (\<lparr>batchId = None, error = Some (message batchError), skippedCount = 0\<rparr>,
              log_error ''Error saving batch:'' batchError w2)
         | (Inr new_id, w2) \<Rightarrow>
             (\<lparr>batchId = Some new_id, error = None, skippedCount = length (successful result) - length toSave\<rparr>,
              insert_loop (map (savedRow_qb new_id) toSave @ map (failedRow_qb new_id) (failed result)) 0 w2)))"
  unfolding saveBatchToDatabase_qb_def assms(1) prod.case Let_def assms(2)[symmetric]
  using assms(3) by simp

lemma save_creates_batch_qb:
  assumes keys: "keys = filter (\<lambda>i. i \<noteq> []) (map invoiceNo (successful result))"
      and replies: "replies w = map Accept us @ Accept b # rs"
      and len: "length us = (length keys + (chunkSize - 1)) div chunkSize"
      and toSave: "toSave = filter (\<lambda>t. invoiceNo t = [] \<or>
                       invoiceNo t \<notin> StoredTransaction.ref_id ` set (parsed_transactions w)) (successful result)"
      and ne: "toSave \<noteq> []"
      and allRows: "allRows = map (savedRow_qb b) toSave @ map (failedRow_qb b) (failed result)"
      and n: "n = (length allRows + (batchSize - 1)) div batchSize"
      and row: "row = \<lparr>id = [], session_id = sessionId e,
                           batch_name = or_else batchName (defaultBatchName e),
                           total_lines = totalLines result, success_count = length toSave,
                           fail_count = failCount result,
                           total_amount = totalAmountOf e (map ParsedTransaction_qb.amount toSave)\<rparr>"
  shows "saveBatchToDatabase_qb e result batchName w =
     (\<lparr>batchId = Some b, error = None, skippedCount = length (successful result) - length toSave\<rparr>,
      w\<lparr>replies := drop n rs,
        requests := requests w @
           map (\<lambda>j. SelectIn ''ref_id'' (slice (j * chunkSize) (j * chunkSize + chunkSize) keys)) [0..<length us] @
           [InsertBatch row] @
           map (\<lambda>j. InsertRows (slice (j * batchSize) (j * batchSize + batchSize) allRows)) [0..<n],
        transaction_batches := transaction_batches w @ [row\<lparr>id := b\<rparr>],
        parsed_transactions := parsed_transactions w @
           concat (map (\<lambda>j. if rejected (reply_at rs j) then []
                             else slice (j * batchSize) (j * batchSize + batchSize) allRows) [0..<n]),
        console_error := console_error w @
           concat (map (\<lambda>j. case reply_at rs j of
                               Reject x \<Rightarrow> [(''Error saving transactions:'', x)]
                             | Accept u \<Rightarrow> []) [0..<n])\<rparr>)"
proof -
  let ?C = "StoredTransaction.ref_id ` set (parsed_transactions w)"
  let ?w1 = "w\<lparr>requests := requests w @
           map (\<lambda>j. SelectIn ''ref_id'' (slice (j * chunkSize) (j * chunkSize + chunkSize) keys)) [0..<length us],
        replies := Accept b # rs\<rparr>"
  have chk: "checkExistingTransactions_qb (successful result) (bankType result) w = ((set keys \<inter> ?C, None), ?w1)"
    by (rule checkExisting_qb_accepted[OF keys _ len]) (simp add: replies)
  have ts: "toSave = filter (\<lambda>t. invoiceNo t \<notin> set keys \<inter> ?C) (successful result)"
    unfolding toSave using survivors[of keys invoiceNo "successful result" ?C, OF keys] by simp
  let ?w2 = "?w1\<lparr>requests := requests ?w1 @ [InsertBatch row], replies := rs,
              transaction_batches := transaction_batches ?w1 @ [row\<lparr>id := b\<rparr>]\<rparr>"
  have ib: "insert_batch row ?w1 = (Inr b, ?w2)"
    by (rule insert_batch_Accept) simp
  show ?thesis
    unfolding save_after_check_qb[OF chk ts not_truthy_None] row[symmetric] ib
    using ne by (simp add: allRows[symmetric] insert_loop_from_0[OF n])
qed

lemma save_skips_all_qb:
  assumes keys: "keys = filter (\<lambda>i. i \<noteq> []) (map invoiceNo (successful result))"
      and replies: "replies w = map Accept us @ script"
      and len: "length us = (length keys + (chunkSize - 1)) div chunkSize"
      and stored: "\<forall>t\<in>set (successful result).
                     invoiceNo t \<noteq> [] \<and> invoiceNo t \<in> StoredTransaction.ref_id ` set (parsed_transactions w)"
  shows "saveBatchToDatabase_qb e result batchName w =
     (\<lparr>batchId = None, error = None, skippedCount = length (successful result)\<rparr>,
      w\<lparr>requests := requests w @
           map (\<lambda>j. SelectIn ''ref_id'' (slice (j * chunkSize) (j * chunkSize + chunkSize) keys)) [0..<length us],
        replies := script\<rparr>)"
proof -
  let ?C = "StoredTransaction.ref_id ` set (parsed_transactions w)"
  have chk: "checkExistingTransactions_qb (successful result) (bankType result) w = ((set keys \<inter> ?C, None),
      w\<lparr>requests := requests w @
           map (\<lambda>j. SelectIn ''ref_id'' (slice (j * chunkSize) (j * chunkSize + chunkSize) keys)) [0..<length us],
        replies := script\<rparr>)"
    by (rule checkExisting_qb_accepted[OF keys replies len])
  have "filter (\<lambda>t. invoiceNo t \<notin> set keys \<inter> ?C) (successful result) = filter (\<lambda>t. invoiceNo t = [] \<or> invoiceNo t \<notin> ?C) (successful result)"
    using survivors[of keys invoiceNo "successful result" ?C, OF keys] by simp
  also have "\<dots> = []" using stored by (simp add: filter_empty_conv)
  finally have ts: "[] = filter (\<lambda>t. invoiceNo t \<notin> set keys \<inter> ?C) (successful result)" by simp
  show ?thesis
    unfolding save_after_check_qb[OF chk ts not_truthy_None] by simp
qed

end
